theory Spec2Isabelle
  imports Main "HOL-Library.Sublist"
begin

section \<open>The HTTP client of package httpx\<close>

text \<open>
  A shallow embedding of \<^verbatim>\<open>pkg/httpx/client.go\<close>: the request builder
  (\<^verbatim>\<open>NewRequest\<close>, \<^verbatim>\<open>NewMultipartRequest\<close>), the retry loop
  (\<^verbatim>\<open>DoWithHeaders\<close>), the response cache, the rate-limit reader and the error
  decoder. Strings are byte strings (\<open>char list\<close>). The functions of Go's standard
  library that the client calls (\<^verbatim>\<open>net/url\<close>, \<^verbatim>\<open>encoding/json\<close>,
  \<^verbatim>\<open>mime/multipart\<close>, \<^verbatim>\<open>time.Parse\<close>) are not part of the package: they
  are fields of a record \<open>golib\<close> that every modelled function takes as its first
  argument, so each theorem holds for whatever the library computes.
\<close>

subsection \<open>Errors\<close>

datatype error =
    Errorf string       \<comment> \<open>an error made by \<^verbatim>\<open>fmt.Errorf\<close> in this package\<close>
  | NetErr string       \<comment> \<open>an error returned by \<^verbatim>\<open>http.Client.Do\<close>\<close>
  | CtxErr string       \<comment> \<open>\<^verbatim>\<open>ctx.Err()\<close>: the cancellation cause of the caller's context\<close>
  | LibErr string       \<comment> \<open>an error returned by another library function\<close>

fun error_msg :: "error \<Rightarrow> string" where
  "error_msg (Errorf m) = m"
| "error_msg (NetErr m) = m"
| "error_msg (CtxErr m) = m"
| "error_msg (LibErr m) = m"

subsection \<open>The functions of package strings (on ASCII)\<close>

definition isSpace :: "char \<Rightarrow> bool" where
  "isSpace c = (c = CHR '' '' \<or> c = CHR 0x09 \<or> c = CHR 0x0A \<or> c = CHR 0x0B
                \<or> c = CHR 0x0C \<or> c = CHR 0x0D)"

definition strings_TrimSpace :: "string \<Rightarrow> string" where
  "strings_TrimSpace s = rev (dropWhile isSpace (rev (dropWhile isSpace s)))"

definition strings_HasPrefix :: "string \<Rightarrow> string \<Rightarrow> bool" where
  "strings_HasPrefix s p = prefix p s"

definition strings_TrimSuffix :: "string \<Rightarrow> string \<Rightarrow> string" where
  "strings_TrimSuffix s suf =
     (if suffix suf s then take (length s - length suf) s else s)"

definition toLowerChar :: "char \<Rightarrow> char" where
  "toLowerChar c =
     (let n = (of_char c :: nat) in if 65 \<le> n \<and> n \<le> 90 then char_of (n + 32) else c)"

definition strings_ToLower :: "string \<Rightarrow> string" where
  "strings_ToLower s = map toLowerChar s"

fun strings_Contains :: "string \<Rightarrow> string \<Rightarrow> bool" where
  "strings_Contains [] sub = (sub = [])"
| "strings_Contains (c # s) sub = (prefix sub (c # s) \<or> strings_Contains s sub)"

subsection \<open>URLs, requests, responses\<close>

text \<open>
  \<^verbatim>\<open>url.URL\<close> with the fields the client reads or writes. \<^verbatim>\<open>u := *c.baseURL\<close>
  copies every field of the base; the client then overwrites \<open>Path\<close> and \<open>RawQuery\<close>.
\<close>

record url =
  Scheme :: string
  Host :: string
  Path :: string
  RawQuery :: string
  Fragment :: string

text \<open>
  \<^verbatim>\<open>http.Header\<close>, read with \<^verbatim>\<open>Get\<close> (the empty string when the key is absent)
  and written with \<^verbatim>\<open>Set\<close>. Keys stand for their canonical form.
\<close>

type_synonym header = "string \<rightharpoonup> string"

definition Header_Get :: "header \<Rightarrow> string \<Rightarrow> string" where
  "Header_Get h k = (case h k of None \<Rightarrow> [] | Some v \<Rightarrow> v)"

definition Header_Set :: "header \<Rightarrow> string \<Rightarrow> string \<Rightarrow> header" where
  "Header_Set h k v = h(k \<mapsto> v)"

text \<open>
  \<^verbatim>\<open>http.Request\<close>: \<open>Body\<close> is \<open>None\<close> for a nil body; \<open>GetBody\<close> is \<open>None\<close>
  for a nil replay function, and otherwise what calling it returns.
\<close>

record request =
  Method :: string
  URL :: url
  Header :: header
  Body :: "string option"
  GetBody :: "(error + string) option"
  ContentLength :: int

record MultipartFile =
  FieldName :: string
  FileName :: string
  Reader :: "string option"   \<comment> \<open>\<open>None\<close> is a nil reader, otherwise the content it yields\<close>

record apiErrEntry =
  Message :: string
  ExceptionName :: string

subsection \<open>The standard library, as a parameter\<close>

text \<open>
  \<open>'b\<close> is the type of values a caller passes as a JSON body, \<open>'j\<close> the type of the
  value a caller decodes into.
  \<^item> \<open>url_Parse s\<close> is \<^verbatim>\<open>url.Parse(s)\<close>;
  \<^item> \<open>ResolveReference base ref\<close> is \<^verbatim>\<open>base.ResolveReference(ref)\<close>;
  \<^item> \<open>url_String u\<close> is \<^verbatim>\<open>u.String()\<close>;
  \<^item> \<open>http_NewRequest m u\<close> is the error of \<^verbatim>\<open>http.NewRequestWithContext\<close> for method
    \<open>m\<close> and the URL string of \<open>u\<close> (an invalid method, a URL string that does not parse),
    \<open>None\<close> when it succeeds; the request it returns carries \<open>u\<close> as its URL, the
    library's own round trip through \<^verbatim>\<open>String\<close> and \<^verbatim>\<open>Parse\<close>;
  \<^item> \<open>json_Marshal b\<close> is \<^verbatim>\<open>json.Marshal(b)\<close>;
  \<^item> \<open>json_Unmarshal data v\<close> is \<^verbatim>\<open>json.Unmarshal(data, v)\<close>: the value \<open>v\<close> points
    to afterwards, and the error;
  \<^item> \<open>unmarshal_apiErr data\<close> is the \<^verbatim>\<open>Errors\<close> field of the zero \<^verbatim>\<open>apiErr\<close> after
    \<^verbatim>\<open>json.Unmarshal(data, &payload)\<close>, whose error \<^verbatim>\<open>decodeError\<close> ignores;
  \<^item> \<open>time_Parse_RFC1123 s\<close> is \<^verbatim>\<open>time.Parse(time.RFC1123, s)\<close>, a time in seconds;
  \<^item> \<open>multipart_part field name content\<close> is \<^verbatim>\<open>CreateFormFile\<close> followed by
    \<^verbatim>\<open>io.Copy\<close> for one file: the error of either, already wrapped, or the bytes
    written for the part;
  \<^item> \<open>multipart_close parts\<close> is \<^verbatim>\<open>mw.Close()\<close>: its error, already wrapped, or the
    whole payload and \<^verbatim>\<open>FormDataContentType()\<close>;
  \<^item> \<open>strconv_Quote s\<close> is \<open>s\<close> as the verb \<^verbatim>\<open>%q\<close> prints it;
  \<^item> \<open>basicAuth user pw\<close> is the \<^verbatim>\<open>Authorization\<close> value \<^verbatim>\<open>SetBasicAuth\<close> sets.
\<close>

record ('b, 'j) golib =
  url_Parse :: "string \<Rightarrow> error + url"
  ResolveReference :: "url \<Rightarrow> url \<Rightarrow> url"
  url_String :: "url \<Rightarrow> string"
  http_NewRequest :: "string \<Rightarrow> url \<Rightarrow> error option"
  json_Marshal :: "'b \<Rightarrow> error + string"
  json_Unmarshal :: "string \<Rightarrow> 'j \<Rightarrow> 'j \<times> error option"
  unmarshal_apiErr :: "string \<Rightarrow> apiErrEntry list"
  time_Parse_RFC1123 :: "string \<Rightarrow> error + int"
  multipart_part :: "string \<Rightarrow> string \<Rightarrow> string \<Rightarrow> error + string"
  multipart_close :: "string list \<Rightarrow> error + (string \<times> string)"
  strconv_Quote :: "string \<Rightarrow> string"
  basicAuth :: "string \<Rightarrow> string \<Rightarrow> string"

subsection \<open>The client\<close>

text \<open>Durations are \<^verbatim>\<open>time.Duration\<close>: signed 64-bit nanoseconds.\<close>

record RetryPolicy =
  MaxAttempts :: int
  InitialBackoff :: int
  MaxBackoff :: int

text \<open>
  \<open>Reset\<close> is a \<^verbatim>\<open>time.Time\<close> in seconds since January 1, year 1 UTC, so that \<open>0\<close>
  is the zero time (\<^verbatim>\<open>IsZero()\<close>).
\<close>

record RateLimit =
  Limit :: int
  Remaining :: int
  Reset :: int
  Source :: string

record cacheEntry =
  etag :: string
  body :: string
  storedAt :: int

record Client =
  baseURL :: url
  username :: string
  password :: string
  userAgent :: string
  enableCache :: bool
  cache :: "string \<rightharpoonup> cacheEntry"
  rate :: RateLimit
  retry :: RetryPolicy
  debug :: bool

subsection \<open>Request Builder\<close>

text \<open>
  Lines 249--293 of \<^verbatim>\<open>NewRequest\<close>, which \<^verbatim>\<open>NewMultipartRequest\<close> repeats word for
  word (lines 720--758): the URL \<open>u\<close> of the request for the caller's \<open>path\<close>.
\<close>

definition requestURL :: "('b, 'j) golib \<Rightarrow> Client \<Rightarrow> string \<Rightarrow> error + url" where
  "requestURL L c path0 =
     (if strings_TrimSpace path0 = [] then Inl (Errorf ''path is required'')
      else
        let absolute = (strings_HasPrefix path0 ''http://'' \<or> strings_HasPrefix path0 ''https://'');
            path = (if absolute then path0
                    else if \<not> strings_HasPrefix path0 ''/'' then ''/'' @ path0 else path0)
        in case url_Parse L path of
             Inl e \<Rightarrow>
               Inl (Errorf ((if absolute then ''parse request URL: '' else ''parse request path: '')
                            @ error_msg e))
           | Inr rel0 \<Rightarrow>
               let rel = (if Path rel0 = [] then rel0\<lparr>Path := ''/''\<rparr> else rel0);
                   basePath = Path (baseURL c);
                   u = (if strings_HasPrefix path ''/'' \<and> basePath \<noteq> [] then
                          (if strings_HasPrefix (Path rel) basePath
                           then (baseURL c)\<lparr>Path := Path rel\<rparr>
                           else (baseURL c)\<lparr>Path := strings_TrimSuffix basePath ''/'' @ Path rel\<rparr>)
                        else ResolveReference L (baseURL c) rel)
               in Inr (u\<lparr>RawQuery := RawQuery rel\<rparr>))"

definition stdHeaders :: "('b, 'j) golib \<Rightarrow> Client \<Rightarrow> header \<Rightarrow> header" where
  "stdHeaders L c h =
     (let h1 = Header_Set (Header_Set h ''Accept'' ''application/json'') ''User-Agent'' (userAgent c)
      in if username c \<noteq> [] \<or> password c \<noteq> []
         then Header_Set h1 ''Authorization'' (basicAuth L (username c) (password c))
         else h1)"

definition NewRequest ::
  "('b, 'j) golib \<Rightarrow> Client \<Rightarrow> string \<Rightarrow> string \<Rightarrow> 'b option \<Rightarrow> error + request" where
  "NewRequest L c method path bodyv =
     (case requestURL L c path of
        Inl e \<Rightarrow> Inl e
      | Inr u \<Rightarrow>
          (case (case bodyv of None \<Rightarrow> Inr None
                 | Some b \<Rightarrow> (case json_Marshal L b of
                                Inl e \<Rightarrow> Inl (Errorf (''encode request body: '' @ error_msg e))
                              | Inr p \<Rightarrow> Inr (Some p))) of
             Inl e \<Rightarrow> Inl e
           | Inr payload \<Rightarrow>
               (case http_NewRequest L method u of
                  Some e \<Rightarrow> Inl e
                | None \<Rightarrow>
                    Inr \<lparr>Method = method, URL = u,
                         Header = stdHeaders L c
                           (case payload of None \<Rightarrow> Map.empty
                            | Some p \<Rightarrow> Header_Set Map.empty ''Content-Type'' ''application/json''),
                         Body = payload,
                         GetBody = (case payload of None \<Rightarrow> None | Some p \<Rightarrow> Some (Inr p)),
                         ContentLength = (case payload of None \<Rightarrow> 0 | Some p \<Rightarrow> int (length p))\<rparr>)))"

text \<open>The loop over \<^verbatim>\<open>files\<close>: the parts written so far are \<open>acc\<close>.\<close>

fun writeFiles ::
  "('b, 'j) golib \<Rightarrow> MultipartFile list \<Rightarrow> string list \<Rightarrow> error + string list" where
  "writeFiles L [] acc = Inr acc"
| "writeFiles L (f # fs) acc =
     (case Reader f of
        None \<Rightarrow> Inl (Errorf (''reader is nil for file '' @ strconv_Quote L (FileName f)))
      | Some content \<Rightarrow>
          (case multipart_part L (FieldName f) (FileName f) content of
             Inl e \<Rightarrow> Inl e
           | Inr part \<Rightarrow> writeFiles L fs (acc @ [part])))"

definition NewMultipartRequest ::
  "('b, 'j) golib \<Rightarrow> Client \<Rightarrow> string \<Rightarrow> string \<Rightarrow> MultipartFile list \<Rightarrow> error + request" where
  "NewMultipartRequest L c method path files =
     (case requestURL L c path of
        Inl e \<Rightarrow> Inl e
      | Inr u \<Rightarrow>
          if length files = 0 then Inl (Errorf ''at least one file is required'')
          else (case writeFiles L files [] of
                  Inl e \<Rightarrow> Inl e
                | Inr parts \<Rightarrow>
                    (case multipart_close L parts of
                       Inl e \<Rightarrow> Inl e
                     | Inr (payload, ctype) \<Rightarrow>
                         (case http_NewRequest L method u of
                            Some e \<Rightarrow> Inl e
                          | None \<Rightarrow>
                              Inr \<lparr>Method = method, URL = u,
                                   Header = stdHeaders L c (Header_Set Map.empty ''Content-Type'' ctype),
                                   Body = Some payload,
                                   GetBody = Some (Inr payload),
                                   ContentLength = int (length payload)\<rparr>))))"

subsection \<open>Integers: \<^verbatim>\<open>strconv\<close> and 64-bit arithmetic\<close>

text \<open>
  \<^verbatim>\<open>int\<close>, \<^verbatim>\<open>int64\<close> and \<^verbatim>\<open>time.Duration\<close> are 64 bits wide and wrap around:
  \<open>wrap64\<close> is the value of an exact result as Go stores it.
\<close>

definition wrap64 :: "int \<Rightarrow> int" where
  "wrap64 x = (x + 2 ^ 63) mod 2 ^ 64 - 2 ^ 63"

text \<open>\<^verbatim>\<open>time.Duration(1 << n)\<close> for \<open>n \<ge> 0\<close>: a shift by 64 or more gives 0.\<close>

definition shl1 :: "int \<Rightarrow> int" where
  "shl1 n = (if n \<ge> 64 then 0 else wrap64 (2 ^ nat n))"

definition digitVal :: "char \<Rightarrow> nat option" where
  "digitVal c =
     (let n = (of_char c :: nat) in if 48 \<le> n \<and> n \<le> 57 then Some (n - 48) else None)"

fun parseDigits :: "string \<Rightarrow> nat \<Rightarrow> nat option" where
  "parseDigits [] acc = Some acc"
| "parseDigits (c # cs) acc =
     (case digitVal c of None \<Rightarrow> None | Some d \<Rightarrow> parseDigits cs (10 * acc + d))"

text \<open>
  \<^verbatim>\<open>strconv.ParseInt(s, 10, 64)\<close>: an optional sign, then at least one decimal digit;
  \<open>None\<close> for a syntax error and for a value outside the 64-bit range.
\<close>

definition strconv_ParseInt :: "string \<Rightarrow> int option" where
  "strconv_ParseInt s =
     (case s of
        [] \<Rightarrow> None
      | c # cs \<Rightarrow>
          let neg = (c = CHR ''-'');
              ds = (if c = CHR ''+'' \<or> c = CHR ''-'' then cs else s)
          in if ds = [] then None
             else (case parseDigits ds 0 of
                     None \<Rightarrow> None
                   | Some n \<Rightarrow>
                       let v = (if neg then - int n else int n)
                       in if v < - (2 ^ 63) \<or> v > 2 ^ 63 - 1 then None else Some v))"

definition strconv_Atoi :: "string \<Rightarrow> int option" where
  "strconv_Atoi s = strconv_ParseInt s"

text \<open>\<^verbatim>\<open>time.Unix(epoch, 0)\<close> in seconds since year 1.\<close>

definition time_Unix :: "int \<Rightarrow> int" where
  "time_Unix epoch = wrap64 (epoch + 62135596800)"

subsection \<open>Responses, the network and the caller's target\<close>

text \<open>
  \<^verbatim>\<open>http.Response\<close>. Reading \<^verbatim>\<open>resp.Body\<close> to its end yields the bytes \<open>RespBody\<close>
  and the error \<open>RespBodyErr\<close> (\<open>None\<close> for a body that ends cleanly).
\<close>

record response =
  StatusCode :: int
  Status :: string
  RespHeader :: header
  RespBody :: string
  RespBodyErr :: "error option"

text \<open>
  What the client does not decide:
  \<^item> \<open>roundTrip n req\<close> is what \<^verbatim>\<open>c.httpClient.Do\<close> returns for \<open>req\<close> when \<open>n\<close>
    network calls were made before it;
  \<^item> \<open>ctxDone n d\<close> is the outcome of the \<^verbatim>\<open>select\<close> in \<^verbatim>\<open>backoff\<close> after \<open>n\<close>
    network calls and for a delay \<open>d\<close>: \<open>Some e\<close> when \<^verbatim>\<open>ctx.Done()\<close> is taken, \<open>e\<close>
    being \<^verbatim>\<open>ctx.Err()\<close>, and \<open>None\<close> when the timer (or, for \<open>d \<le> 0\<close>, the default
    case) is taken;
  \<^item> \<open>timeNow n\<close> is \<^verbatim>\<open>time.Now()\<close> after \<open>n\<close> network calls.
\<close>

record env =
  roundTrip :: "nat \<Rightarrow> request \<Rightarrow> error + response"
  ctxDone :: "nat \<Rightarrow> int \<Rightarrow> error option"
  timeNow :: "nat \<Rightarrow> int"

text \<open>
  The argument \<^verbatim>\<open>v any\<close> of \<^verbatim>\<open>Do\<close>: nil, an \<^verbatim>\<open>io.Writer\<close> (a buffer, with the
  bytes written to it so far), or a pointer to a value to decode into.
\<close>

datatype 'j target = TNil | TWriter string | TJson 'j

text \<open>
  What a call of \<^verbatim>\<open>DoWithHeaders\<close> leaves behind: the client, the number of network
  calls made so far, the returned header and error, and the caller's target.
\<close>

record 'j do_result =
  client :: Client
  calls :: nat
  hdr :: "header option"
  err :: "error option"
  out :: "'j target"

subsection \<open>Error Decoder\<close>

definition isCaptchaException :: "string \<Rightarrow> bool" where
  "isCaptchaException exceptionName =
     strings_Contains (strings_ToLower exceptionName) ''captcharequired''"

definition decodeError :: "('b, 'j) golib \<Rightarrow> response \<Rightarrow> error" where
  "decodeError L resp =
     (let data = RespBody resp;
          rerr = RespBodyErr resp;
          errors = (if rerr = None \<and> length data > 0 then unmarshal_apiErr L data else [])
      in case errors of
           first # rest \<Rightarrow>
             let bestErr = (case find (\<lambda>e. isCaptchaException (ExceptionName e)) errors of
                              Some e \<Rightarrow> e | None \<Rightarrow> first);
                 msg = Message bestErr;
                 msg' = (if isCaptchaException (ExceptionName bestErr)
                            \<and> \<not> strings_Contains (strings_ToLower msg) ''captcha''
                         then ''CAPTCHA verification required: '' @ msg else msg)
             in Errorf (Status resp @ '': '' @ msg')
         | [] \<Rightarrow>
             if rerr = None \<and> length data > 0
             then Errorf (Status resp @ '': '' @ strings_TrimSpace data)
             else Errorf (Status resp))"

subsection \<open>Retry policy and backoff\<close>

definition cloneRequest :: "request \<Rightarrow> error + request" where
  "cloneRequest req =
     (case Body req of
        None \<Rightarrow> Inr req
      | Some b \<Rightarrow>
          (case GetBody req of
             None \<Rightarrow> Inl (Errorf ''request body cannot be replayed'')
           | Some (Inl e) \<Rightarrow> Inl e
           | Some (Inr b') \<Rightarrow> Inr (req\<lparr>Body := Some b'\<rparr>)))"

definition shouldRetryStatus :: "int \<Rightarrow> bool" where
  "shouldRetryStatus code = (if code = 429 then True else code \<ge> 500 \<and> code \<le> 599)"

definition shouldRetry :: "Client \<Rightarrow> int \<Rightarrow> int \<Rightarrow> bool" where
  "shouldRetry c attempts status = (attempts + 1 < MaxAttempts (retry c))"

text \<open>
  The delay \<^verbatim>\<open>backoff\<close> computes before it waits (lines 546--560); \<open>resp\<close> is
  \<open>None\<close> for the nil response of a failed network call.
\<close>

definition backoffDelay :: "Client \<Rightarrow> int \<Rightarrow> response option \<Rightarrow> int" where
  "backoffDelay c attempts resp =
     (let delay0 = InitialBackoff (retry c);
          delay1 = (if attempts > 1 then wrap64 (delay0 * shl1 (attempts - 1)) else delay0);
          delay2 = (if delay1 > MaxBackoff (retry c) then MaxBackoff (retry c) else delay1)
      in case resp of
           None \<Rightarrow> delay2
         | Some r \<Rightarrow>
             let retryAfter = Header_Get (RespHeader r) ''Retry-After''
             in if retryAfter \<noteq> [] then
                  (case strconv_Atoi retryAfter of
                     Some secs \<Rightarrow> wrap64 (secs * 1000000000)
                   | None \<Rightarrow> delay2)
                else delay2)"

text \<open>
  \<^verbatim>\<open>backoff\<close> returns \<^verbatim>\<open>(continueRetry, waitErr)\<close>. Both \<^verbatim>\<open>select\<close> statements
  are decided by the environment: the first does not block, the second waits for
  the timer or for the context, whichever comes first.
\<close>

definition backoff ::
  "env \<Rightarrow> Client \<Rightarrow> nat \<Rightarrow> int \<Rightarrow> response option \<Rightarrow> bool \<times> error option" where
  "backoff E c n attempts resp =
     (if attempts \<ge> MaxAttempts (retry c) then (False, None)
      else
        let delay = backoffDelay c attempts resp
        in if delay \<le> 0 then
             (case ctxDone E n delay of Some e \<Rightarrow> (False, Some e) | None \<Rightarrow> (True, None))
           else
             (case ctxDone E n delay of Some e \<Rightarrow> (False, Some e) | None \<Rightarrow> (True, None)))"

subsection \<open>Response Cache\<close>

definition cacheKey :: "('b, 'j) golib \<Rightarrow> request \<Rightarrow> string" where
  "cacheKey L req = Method req @ '' '' @ url_String L (URL req)"

definition cachedETag :: "('b, 'j) golib \<Rightarrow> Client \<Rightarrow> request \<Rightarrow> string" where
  "cachedETag L c req =
     (case cache c (cacheKey L req) of Some entry \<Rightarrow> etag entry | None \<Rightarrow> [])"

definition storeCache ::
  "('b, 'j) golib \<Rightarrow> int \<Rightarrow> Client \<Rightarrow> request \<Rightarrow> string \<Rightarrow> string \<Rightarrow> Client" where
  "storeCache L now c req bodyBytes tag =
     (if tag = [] \<or> length bodyBytes = 0 then c
      else c\<lparr>cache := (cache c)(cacheKey L req \<mapsto>
                \<lparr>etag = tag, body = bodyBytes, storedAt = now\<rparr>)\<rparr>)"

definition applyCachedResponse ::
  "('b, 'j) golib \<Rightarrow> Client \<Rightarrow> request \<Rightarrow> 'j target \<Rightarrow> 'j target \<times> error option" where
  "applyCachedResponse L c req v =
     (case v of
        TNil \<Rightarrow> (v, None)
      | _ \<Rightarrow>
          (case cache c (cacheKey L req) of
             None \<Rightarrow> (v, Some (Errorf (''cached response missing for '' @ url_String L (URL req))))
           | Some entry \<Rightarrow>
               (case v of
                  TWriter w \<Rightarrow> (TWriter (w @ body entry), None)
                | TJson j \<Rightarrow>
                    if length (body entry) = 0 then (v, None)
                    else (case json_Unmarshal L (body entry) j of (j', e) \<Rightarrow> (TJson j', e))
                | TNil \<Rightarrow> (v, None))))"

subsection \<open>Rate Limiter State\<close>

definition RateLimitState :: "Client \<Rightarrow> RateLimit" where
  "RateLimitState c = rate c"

definition readHeader :: "header \<Rightarrow> string \<Rightarrow> int" where
  "readHeader headers key =
     (let val = Header_Get headers key
      in if val = [] then 0
         else (case strconv_Atoi val of None \<Rightarrow> 0 | Some n \<Rightarrow> n))"

definition updateRateLimit :: "('b, 'j) golib \<Rightarrow> Client \<Rightarrow> response \<Rightarrow> Client" where
  "updateRateLimit L c resp =
     (let headers = RespHeader resp;
          limit0 = readHeader headers ''X-RateLimit-Limit'';
          remaining0 = readHeader headers ''X-RateLimit-Remaining'';
          resetHeader = Header_Get headers ''X-RateLimit-Reset'';
          reset = (if resetHeader \<noteq> [] then
                     (case strconv_ParseInt resetHeader of
                        Some epoch \<Rightarrow> if epoch > 0 then time_Unix epoch else 0
                      | None \<Rightarrow>
                          (case time_Parse_RFC1123 L resetHeader of
                             Inr parsed \<Rightarrow> parsed | Inl e \<Rightarrow> 0))
                   else 0);
          source0 = (if limit0 \<noteq> 0 \<or> remaining0 \<noteq> 0 then ''bitbucket'' else []);
          (limit, remaining, source) =
            (if limit0 = 0 \<and> remaining0 = 0 then
               let limit1 = readHeader headers ''X-Attempt-RateLimit-Limit'';
                   remaining1 = readHeader headers ''X-Attempt-RateLimit-Remaining'';
                   (limit2, remaining2) =
                     (if limit1 = 0 \<and> remaining1 = 0
                      then (readHeader headers ''X-RateLimit-Capacity'',
                            readHeader headers ''X-RateLimit-Available'')
                      else (limit1, remaining1))
               in (limit2, remaining2,
                   if limit2 \<noteq> 0 \<or> remaining2 \<noteq> 0 then ''atlassian'' else source0)
             else (limit0, remaining0, source0))
      in if limit = 0 \<and> remaining = 0 then c
         else c\<lparr>rate := \<lparr>Limit = limit, Remaining = remaining, Reset = reset, Source = source\<rparr>\<rparr>)"

text \<open>
  \<^verbatim>\<open>applyAdaptiveThrottle\<close> reads the rate limit and sleeps; it changes nothing
  of the client. \<open>applyAdaptiveThrottle now c\<close> is the time it sleeps, in seconds,
  when \<^verbatim>\<open>time.Now()\<close> is \<open>now\<close>.
\<close>

definition applyAdaptiveThrottle :: "int \<Rightarrow> Client \<Rightarrow> int" where
  "applyAdaptiveThrottle now c =
     (let rl = rate c
      in if Remaining rl > 1 \<or> Reset rl = 0 then 0
         else let sleep = Reset rl - now
              in if sleep \<le> 0 then 0 else if sleep > 5 then 5 else sleep)"

subsection \<open>Transport Core\<close>

text \<open>
  One pass through the body of the \<^verbatim>\<open>for\<close> loop of \<^verbatim>\<open>DoWithHeaders\<close> (lines
  346--464), with \<open>n\<close> network calls made before it: either the loop returns, or it
  reaches \<^verbatim>\<open>continue\<close> with the client as updated so far. The debug output to
  standard error and the sleep of \<^verbatim>\<open>applyAdaptiveThrottle\<close> leave no trace in the
  state and are not shown.
\<close>

datatype 'j step = Return "'j do_result" | Continue Client

definition closedBody :: "response \<Rightarrow> string \<Rightarrow> response" where
  \<comment> \<open>the response after \<^verbatim>\<open>io.ReadAll\<close> and \<^verbatim>\<open>Close\<close>, its body restored when not empty\<close>
  "closedBody resp bodyBytes =
     (if length bodyBytes > 0 then resp\<lparr>RespBody := bodyBytes, RespBodyErr := None\<rparr>
      else resp\<lparr>RespBody := [], RespBodyErr := Some (LibErr ''http: read on closed response body'')\<rparr>)"

text \<open>Lines 351--355: the cached ETag of a GET goes into \<^verbatim>\<open>If-None-Match\<close>.\<close>

definition attachETag :: "('b, 'j) golib \<Rightarrow> Client \<Rightarrow> request \<Rightarrow> request" where
  "attachETag L c attemptReq =
     (if enableCache c \<and> Method attemptReq = ''GET'' then
        (let tag = cachedETag L c attemptReq
         in if tag \<noteq> []
            then attemptReq\<lparr>Header := Header_Set (Header attemptReq) ''If-None-Match'' tag\<rparr>
            else attemptReq)
      else attemptReq)"

definition attempt ::
  "('b, 'j) golib \<Rightarrow> env \<Rightarrow> Client \<Rightarrow> nat \<Rightarrow> request \<Rightarrow> 'j target \<Rightarrow> int \<Rightarrow> 'j step" where
  "attempt L E c n req v attempts =
     (case cloneRequest req of
        Inl e \<Rightarrow> Return \<lparr>client = c, calls = n, hdr = None, err = Some e, out = v\<rparr>
      | Inr attemptReq0 \<Rightarrow>
          let attemptReq = attachETag L c attemptReq0
          in (case roundTrip E n attemptReq of
               Inl e \<Rightarrow>
                 if \<not> shouldRetry c attempts 0
                 then Return \<lparr>client = c, calls = Suc n, hdr = None, err = Some e, out = v\<rparr>
                 else (case backoff E c (Suc n) (attempts + 1) None of
                         (continueRetry, Some waitErr) \<Rightarrow>
                           Return \<lparr>client = c, calls = Suc n, hdr = None, err = Some waitErr, out = v\<rparr>
                       | (False, None) \<Rightarrow>
                           Return \<lparr>client = c, calls = Suc n, hdr = None, err = Some e, out = v\<rparr>
                       | (True, None) \<Rightarrow> Continue c)
             | Inr resp \<Rightarrow>
                 let c1 = updateRateLimit L c resp;
                     headers = RespHeader resp
                 in if StatusCode resp = 304 \<and> enableCache c1 \<and> Method attemptReq = ''GET'' then
                      (case applyCachedResponse L c1 attemptReq v of
                         (v', e) \<Rightarrow>
                           Return \<lparr>client = c1, calls = Suc n, hdr = Some headers, err = e, out = v'\<rparr>)
                    else if shouldRetryStatus (StatusCode resp) then
                      (let bodyBytes = RespBody resp
                       in if \<not> shouldRetry c1 attempts (StatusCode resp)
                          then Return \<lparr>client = c1, calls = Suc n, hdr = Some headers,
                                       err = Some (decodeError L (closedBody resp bodyBytes)), out = v\<rparr>
                          else (case backoff E c1 (Suc n) (attempts + 1) (Some resp) of
                                  (continueRetry, Some waitErr) \<Rightarrow>
                                    Return \<lparr>client = c1, calls = Suc n, hdr = None,
                                            err = Some waitErr, out = v\<rparr>
                                | (False, None) \<Rightarrow>
                                    Return \<lparr>client = c1, calls = Suc n, hdr = Some headers,
                                            err = Some (decodeError L (closedBody resp bodyBytes)),
                                            out = v\<rparr>
                                | (True, None) \<Rightarrow> Continue c1))
                    else if StatusCode resp < 200 \<or> StatusCode resp \<ge> 300 then
                      Return \<lparr>client = c1, calls = Suc n, hdr = Some headers,
                              err = Some (decodeError L resp), out = v\<rparr>
                    else
                      (case v of
                         TNil \<Rightarrow>
                           Return \<lparr>client =
                                     (if enableCache c1 \<and> Method attemptReq = ''GET''
                                      then storeCache L (timeNow E (Suc n)) c1 attemptReq []
                                             (Header_Get headers ''ETag'')
                                      else c1),
                                   calls = Suc n, hdr = Some headers, err = None, out = v\<rparr>
                       | TWriter w \<Rightarrow>
                           Return \<lparr>client = c1, calls = Suc n, hdr = Some headers,
                                   err = RespBodyErr resp, out = TWriter (w @ RespBody resp)\<rparr>
                       | TJson j \<Rightarrow>
                           (case RespBodyErr resp of
                              Some e \<Rightarrow>
                                Return \<lparr>client = c1, calls = Suc n, hdr = Some headers,
                                        err = Some e, out = v\<rparr>
                            | None \<Rightarrow>
                                let bodyBytes = RespBody resp;
                                    c2 = (if enableCache c1 \<and> Method attemptReq = ''GET''
                                             \<and> Header_Get headers ''ETag'' \<noteq> []
                                          then storeCache L (timeNow E (Suc n)) c1 attemptReq bodyBytes
                                                 (Header_Get headers ''ETag'')
                                          else c1)
                                in if length bodyBytes = 0
                                   then Return \<lparr>client = c2, calls = Suc n, hdr = Some headers,
                                                err = None, out = v\<rparr>
                                   else (case json_Unmarshal L bodyBytes j of
                                           (j', e) \<Rightarrow>
                                             Return \<lparr>client = c2, calls = Suc n, hdr = Some headers,
                                                     err = e, out = TJson j'\<rparr>)))))"

text \<open>
  The \<^verbatim>\<open>for\<close> loop: \<^verbatim>\<open>attempts\<close> is incremented before each \<^verbatim>\<open>continue\<close>. It
  ends because a pass continues only when \<^verbatim>\<open>shouldRetry\<close> holds.
\<close>

function DoLoop ::
  "('b, 'j) golib \<Rightarrow> env \<Rightarrow> Client \<Rightarrow> nat \<Rightarrow> request \<Rightarrow> 'j target \<Rightarrow> int \<Rightarrow> 'j do_result" where
  "DoLoop L E c n req v attempts =
     (case attempt L E c n req v attempts of
        Return r \<Rightarrow> r
      | Continue c' \<Rightarrow> DoLoop L E c' (Suc n) req v (attempts + 1))"
  by pat_completeness auto
termination
  apply (relation "measure (\<lambda>(L, E, c, n, req, v, attempts). nat (MaxAttempts (retry c) - attempts))")
   apply simp
  subgoal for L E c n req v attempts c'
  proof -
    assume a: "attempt L E c n req v attempts = Continue c'"
    have r: "retry (updateRateLimit L c resp) = retry c" for resp
      by (simp add: updateRateLimit_def Let_def split: prod.splits)
    from a have "attempts + 1 < MaxAttempts (retry c) \<and> retry c' = retry c"
      by (auto simp: attempt_def Let_def shouldRetry_def r
               split: sum.splits if_splits prod.splits option.splits bool.splits target.splits)
    then show ?thesis by simp
  qed
  done

declare DoLoop.simps [simp del]

text \<open>
  \<^verbatim>\<open>DoWithHeaders\<close>; \<open>None\<close> is a nil request. \<open>n\<close> counts the network calls made
  before the call.
\<close>

definition DoWithHeaders ::
  "('b, 'j) golib \<Rightarrow> env \<Rightarrow> Client \<Rightarrow> nat \<Rightarrow> request option \<Rightarrow> 'j target \<Rightarrow> 'j do_result" where
  "DoWithHeaders L E c n reqo v =
     (case reqo of
        None \<Rightarrow> \<lparr>client = c, calls = n, hdr = None, err = Some (Errorf ''request is nil''), out = v\<rparr>
      | Some req \<Rightarrow> DoLoop L E c n req v 0)"

text \<open>\<^verbatim>\<open>Do\<close> drops the header.\<close>

definition Do ::
  "('b, 'j) golib \<Rightarrow> env \<Rightarrow> Client \<Rightarrow> nat \<Rightarrow> request option \<Rightarrow> 'j target \<Rightarrow> 'j do_result" where
  "Do L E c n reqo v = (DoWithHeaders L E c n reqo v)\<lparr>hdr := None\<rparr>"

subsection \<open>The path rule in the words of the specification\<close>



subsection \<open>An instance to run the model on\<close>

text \<open>
  A library for examples, with strings as JSON values. Its \<open>url_Parse\<close> cuts a
  reference that has no scheme, authority, fragment or escape at the first
  \<^verbatim>\<open>?\<close>, as \<^verbatim>\<open>url.Parse\<close> does for such a reference; its \<open>url_String\<close> prints
  scheme, host, path and query; the JSON functions are the identity on the text.
\<close>

definition exampleLib :: "(string, string) golib" where
  "exampleLib =
     \<lparr>url_Parse = (\<lambda>s. Inr \<lparr>Scheme = [], Host = [],
                              Path = takeWhile (\<lambda>c. c \<noteq> CHR ''?'') s,
                              RawQuery = drop 1 (dropWhile (\<lambda>c. c \<noteq> CHR ''?'') s),
                              Fragment = []\<rparr>),
      ResolveReference = (\<lambda>base ref. ref),
      url_String = (\<lambda>u. Scheme u @ ''://'' @ Host u @ Path u
                         @ (if RawQuery u = [] then [] else ''?'' @ RawQuery u)),
      http_NewRequest = (\<lambda>m u. None),
      json_Marshal = (\<lambda>b. Inr b),
      json_Unmarshal = (\<lambda>data v. (data, None)),
      unmarshal_apiErr = (\<lambda>data. []),
      time_Parse_RFC1123 = (\<lambda>s. Inl (LibErr ''cannot parse'')),
      multipart_part = (\<lambda>field name content. Inr (field @ name @ content)),
      multipart_close = (\<lambda>parts. Inr (concat parts, ''multipart/form-data; boundary=x'')),
      strconv_Quote = (\<lambda>s. s),
      basicAuth = (\<lambda>user pw. ''Basic '' @ user @ '':'' @ pw)\<rparr>"

text \<open>
  The client \<^verbatim>\<open>New\<close> builds for the base URL \<^verbatim>\<open>https://api.example.com/2.0\<close>
  with caching enabled and the default retry policy (3 attempts, 200ms, 2s).
\<close>

definition exampleClient :: Client where
  "exampleClient =
     \<lparr>baseURL = \<lparr>Scheme = ''https'', Host = ''api.example.com'', Path = ''/2.0'',
                  RawQuery = [], Fragment = []\<rparr>,
      username = [], password = [], userAgent = ''bb-cli'',
      enableCache = True, cache = Map.empty,
      rate = \<lparr>Limit = 0, Remaining = 0, Reset = 0, Source = []\<rparr>,
      retry = \<lparr>MaxAttempts = 3, InitialBackoff = 200000000, MaxBackoff = 2000000000\<rparr>,
      debug = False\<rparr>"


definition plainResponse :: "int \<Rightarrow> string \<Rightarrow> header \<Rightarrow> string \<Rightarrow> response" where
  "plainResponse code status headers bodyBytes =
     \<lparr>StatusCode = code, Status = status, RespHeader = headers,
      RespBody = bodyBytes, RespBodyErr = None\<rparr>"

text \<open>
  An environment for examples: the network answers its \<open>n\<close>-th call with the
  \<open>n\<close>-th entry of a script whatever the request (and fails once the script is
  used up), every \<^verbatim>\<open>select\<close> of \<^verbatim>\<open>backoff\<close> has the outcome \<open>cancel\<close>, and
  the clock stands at 0.
\<close>

definition scriptEnv :: "(error + response) list \<Rightarrow> error option \<Rightarrow> env" where
  "scriptEnv script cancel =
     \<lparr>roundTrip = (\<lambda>n req. if n < length script then script ! n
                            else Inl (NetErr ''connection refused'')),
      ctxDone = (\<lambda>n d. cancel),
      timeNow = (\<lambda>n. 0)\<rparr>"

text \<open>The request \<^verbatim>\<open>NewRequest(ctx, "GET", "/api", nil)\<close> of the example client.\<close>

definition getRequest :: request where
  "getRequest =
     \<lparr>Method = ''GET'',
      URL = \<lparr>Scheme = ''https'', Host = ''api.example.com'', Path = ''/2.0/api'',
             RawQuery = [], Fragment = []\<rparr>,
      Header = [''Accept'' \<mapsto> ''application/json'', ''User-Agent'' \<mapsto> ''bb-cli''],
      Body = None, GetBody = None, ContentLength = 0\<rparr>"

text \<open>Bodies a server sends in the examples.\<close>

definition okBody :: string where
  \<open>okBody = ''{"message":"ok"}''\<close>



text \<open>
  The server of the caching example: a first answer 200 with the ETag
  \<^verbatim>\<open>etag-123\<close> and a body, a second answer 304.
\<close>

definition etagEnv :: env where
  "etagEnv =
     scriptEnv [Inr (plainResponse 200 ''200 OK'' [''ETag'' \<mapsto> ''etag-123''] okBody),
                Inr (plainResponse 304 ''304 Not Modified'' [''ETag'' \<mapsto> ''etag-123''] [])]
               None"

text \<open>
  Two calls in a row for the same GET against that server: the first with the
  target \<open>v1\<close>, the second, on the client and the call count the first leaves
  behind, with the target \<open>v2\<close>.
\<close>

definition firstCall :: "string target \<Rightarrow> string do_result" where
  "firstCall v1 = DoWithHeaders exampleLib etagEnv exampleClient 0 (Some getRequest) v1"

definition secondCall :: "string target \<Rightarrow> string target \<Rightarrow> string do_result" where
  "secondCall v1 v2 =
     DoWithHeaders exampleLib etagEnv (client (firstCall v1)) (calls (firstCall v1))
       (Some getRequest) v2"

subsection \<open>The cache invariant in the words of the specification\<close>

text \<open>
  ``Entries are only created for GET responses carrying an ETag and a non-empty
  body'', keyed by method and full URL: every entry has a non-empty ETag and a
  non-empty body under a key that starts with \<^verbatim>\<open>GET\<close>.
\<close>

definition cacheInv :: "('b, 'j) golib \<Rightarrow> Client \<Rightarrow> bool" where
  "cacheInv L c =
     (\<forall>k entry. cache c k = Some entry \<longrightarrow>
        etag entry \<noteq> [] \<and> body entry \<noteq> [] \<and> (\<exists>u. k = ''GET '' @ url_String L u))"

text \<open>
  The one way a call for \<open>req\<close> may change the cache from that of \<open>c\<close> to that of
  \<open>c'\<close>: caching is enabled, \<open>req\<close> is a GET, and some network call for it was
  answered with a 2xx response that carries a non-empty ETag and a non-empty body,
  which are stored under the key of \<open>req\<close>.
\<close>

definition cacheWrite ::
  "('b, 'j) golib \<Rightarrow> env \<Rightarrow> request \<Rightarrow> Client \<Rightarrow> Client \<Rightarrow> bool" where
  "cacheWrite L E req c c' =
     (enableCache c \<and> Method req = ''GET''
      \<and> (\<exists>m sent resp.
            roundTrip E m sent = Inr resp \<and> Method sent = ''GET'' \<and> URL sent = URL req
          \<and> 200 \<le> StatusCode resp \<and> StatusCode resp < 300 \<and> RespBodyErr resp = None
          \<and> Header_Get (RespHeader resp) ''ETag'' \<noteq> [] \<and> RespBody resp \<noteq> []
          \<and> cache c' = (cache c)(cacheKey L req \<mapsto>
                \<lparr>etag = Header_Get (RespHeader resp) ''ETag'', body = RespBody resp,
                 storedAt = timeNow E (Suc m)\<rparr>)))"

section \<open>Properties of the request builder\<close>

lemma slash_not_absolute:
  "strings_HasPrefix p ''/'' \<Longrightarrow>
     \<not> strings_HasPrefix p ''http://'' \<and> \<not> strings_HasPrefix p ''https://''"
  by (cases p) (auto simp: strings_HasPrefix_def)

lemma slash_not_blank: "strings_HasPrefix p ''/'' \<Longrightarrow> strings_TrimSpace p \<noteq> []"
  by (cases p) (auto simp: strings_HasPrefix_def strings_TrimSpace_def isSpace_def)

lemma requestURL_relative:
  assumes "strings_TrimSpace p \<noteq> []"
      and "\<not> strings_HasPrefix p ''http://''" and "\<not> strings_HasPrefix p ''https://''"
      and "Path (baseURL c) \<noteq> []"
      and "url_Parse L (if strings_HasPrefix p ''/'' then p else ''/'' @ p) = Inr rel"
  shows "requestURL L c p =
           Inr ((baseURL c)\<lparr>Path :=
                   (let relPath = (if Path rel = [] then ''/'' else Path rel)
                    in if strings_HasPrefix relPath (Path (baseURL c)) then relPath
                       else strings_TrimSuffix (Path (baseURL c)) ''/'' @ relPath),
                 RawQuery := RawQuery rel\<rparr>)"
  using assms
  by (auto simp: requestURL_def Let_def strings_HasPrefix_def)

lemma NewRequest_URL: "NewRequest L c m p b = Inr req \<Longrightarrow> requestURL L c p = Inr (URL req)"
  by (auto simp: NewRequest_def split: sum.splits option.splits)

lemma NewMultipartRequest_URL:
  "NewMultipartRequest L c m p fs = Inr req \<Longrightarrow> requestURL L c p = Inr (URL req)"
  by (auto simp: NewMultipartRequest_def split: sum.splits option.splits if_splits prod.splits)




text \<open>
  C10. The guard against a doubled base path compares characters, not path
  segments: for a path \<open>p\<close> that starts with \<^verbatim>\<open>/\<close> and whose parsed path begins
  with the characters of the (non-empty) base path, \<^verbatim>\<open>NewRequest\<close> and
  \<^verbatim>\<open>NewMultipartRequest\<close> use the parsed path as the whole request path and do not
  prepend the base path, also when the match ends inside a segment.
\<close>

theorem base_path_guard_is_string_prefix:
  fixes L :: "('b, 'j) golib"
  assumes slash: "strings_HasPrefix p ''/''"
      and base: "Path (baseURL c) \<noteq> []"
      and parse: "url_Parse L p = Inr rel"
      and pre: "prefix (Path (baseURL c)) (Path rel)"
  shows "requestURL L c p = Inr ((baseURL c)\<lparr>Path := Path rel, RawQuery := RawQuery rel\<rparr>)
       \<and> (\<forall>m b req. NewRequest L c m p b = Inr req
             \<longrightarrow> URL req = (baseURL c)\<lparr>Path := Path rel, RawQuery := RawQuery rel\<rparr>)
       \<and> (\<forall>m fs req. NewMultipartRequest L c m p fs = Inr req
             \<longrightarrow> URL req = (baseURL c)\<lparr>Path := Path rel, RawQuery := RawQuery rel\<rparr>)"
proof -
  have prs: "url_Parse L (if strings_HasPrefix p ''/'' then p else ''/'' @ p) = Inr rel"
    using slash parse by simp
  have ne: "Path rel \<noteq> []"
    using base pre by auto
  have u: "requestURL L c p = Inr ((baseURL c)\<lparr>Path := Path rel, RawQuery := RawQuery rel\<rparr>)"
    using requestURL_relative [OF slash_not_blank [OF slash]
            conjunct1 [OF slash_not_absolute [OF slash]]
            conjunct2 [OF slash_not_absolute [OF slash]] base prs] ne pre
    by (simp add: Let_def strings_HasPrefix_def)
  have "URL req = (baseURL c)\<lparr>Path := Path rel, RawQuery := RawQuery rel\<rparr>"
    if "NewRequest L c m p b = Inr req" for m b req
    using NewRequest_URL [OF that] u by simp
  moreover have "URL req = (baseURL c)\<lparr>Path := Path rel, RawQuery := RawQuery rel\<rparr>"
    if "NewMultipartRequest L c m p fs = Inr req" for m fs req
    using NewMultipartRequest_URL [OF that] u by simp
  ultimately show ?thesis
    using u by blast
qed

theorem base_path_guard_is_string_prefix_witness:
  "(\<exists>req. NewRequest exampleLib exampleClient ''GET'' ''/2.0abc/x'' None = Inr req
      \<and> Path (URL req) = ''/2.0abc/x'')
   \<and> (\<exists>req. NewMultipartRequest exampleLib exampleClient ''POST'' ''/2.0abc/x''
              [\<lparr>FieldName = ''files'', FileName = ''a.txt'', Reader = Some ''abc''\<rparr>] = Inr req
      \<and> Path (URL req) = ''/2.0abc/x'')"
proof -
  let ?rel = "\<lparr>Scheme = [], Host = [], Path = ''/2.0abc/x'', RawQuery = [], Fragment = []\<rparr>"
  have h: "strings_HasPrefix ''/2.0abc/x'' ''/''" "Path (baseURL exampleClient) \<noteq> []"
          "url_Parse exampleLib ''/2.0abc/x'' = Inr ?rel"
          "prefix (Path (baseURL exampleClient)) (Path ?rel)"
    by (simp_all add: strings_HasPrefix_def exampleClient_def exampleLib_def)
  note g = base_path_guard_is_string_prefix [OF h]
  have r: "requestURL exampleLib exampleClient ''/2.0abc/x''
             = Inr ((baseURL exampleClient)\<lparr>Path := ''/2.0abc/x'', RawQuery := []\<rparr>)"
    using g by simp
  have a: "\<exists>req. NewRequest exampleLib exampleClient ''GET'' ''/2.0abc/x'' None = Inr req
      \<and> Path (URL req) = ''/2.0abc/x''"
    by (simp add: NewRequest_def r) (simp add: exampleLib_def)
  have b: "\<exists>req. NewMultipartRequest exampleLib exampleClient ''POST'' ''/2.0abc/x''
              [\<lparr>FieldName = ''files'', FileName = ''a.txt'', Reader = Some ''abc''\<rparr>] = Inr req
      \<and> Path (URL req) = ''/2.0abc/x''"
    by (simp add: NewMultipartRequest_def r) (simp add: exampleLib_def)
  from a b show ?thesis by blast
qed

section \<open>Properties of the error decoder\<close>










section \<open>Properties of the rate-limit reader\<close>

lemma updateRateLimit_keeps:
  "retry (updateRateLimit L c resp) = retry c"
  "cache (updateRateLimit L c resp) = cache c"
  "enableCache (updateRateLimit L c resp) = enableCache c"
  "baseURL (updateRateLimit L c resp) = baseURL c"
  by (simp_all add: updateRateLimit_def Let_def split: prod.splits)

lemma atoi_100: "strconv_Atoi ''100'' = Some 100"
  by (simp add: strconv_Atoi_def strconv_ParseInt_def digitVal_def)

lemma atoi_42: "strconv_Atoi ''42'' = Some 42"
  by (simp add: strconv_Atoi_def strconv_ParseInt_def digitVal_def)

lemma atoi_60: "strconv_Atoi ''60'' = Some 60"
  by (simp add: strconv_Atoi_def strconv_ParseInt_def digitVal_def)

lemma atoi_7: "strconv_Atoi ''7'' = Some 7"
  by (simp add: strconv_Atoi_def strconv_ParseInt_def digitVal_def)

lemma parse_epoch: "strconv_ParseInt ''1700000000'' = Some 1700000000"
  by (simp add: strconv_ParseInt_def digitVal_def)

lemma parse_date: "strconv_ParseInt ''Tue, 14 Nov 2023 22:13:20 GMT'' = None"
  by (simp add: strconv_ParseInt_def digitVal_def)

lemma unix_epoch: "time_Unix 1700000000 = 63835596800"
  by (simp add: time_Unix_def wrap64_def)

text \<open>
  C8. With \<open>l0, r0\<close> the limit and remaining value of the primary headers and
  \<open>l1, r1\<close> and \<open>l2, r2\<close> those of the two vendor-specific families: when all
  six are zero the client is exactly as before; otherwise only the rate limit
  changes, and all of it is replaced: limit and remaining come from the first
  family that has a non-zero value, the source is \<^verbatim>\<open>bitbucket\<close> for the primary
  family and \<^verbatim>\<open>atlassian\<close> for a fallback, and the reset time is read from
  \<^verbatim>\<open>X-RateLimit-Reset\<close> as a positive Unix epoch or else as an HTTP date, and is
  the zero time when neither is there.
\<close>

theorem updateRateLimit_rules:
  fixes L :: "('b, 'j) golib"
  assumes h: "h = RespHeader resp"
      and c': "c' = updateRateLimit L c resp"
      and s: "s = Header_Get h ''X-RateLimit-Reset''"
      and l0: "l0 = readHeader h ''X-RateLimit-Limit''"
      and r0: "r0 = readHeader h ''X-RateLimit-Remaining''"
      and l1: "l1 = readHeader h ''X-Attempt-RateLimit-Limit''"
      and r1: "r1 = readHeader h ''X-Attempt-RateLimit-Remaining''"
      and l2: "l2 = readHeader h ''X-RateLimit-Capacity''"
      and r2: "r2 = readHeader h ''X-RateLimit-Available''"
      and none: "none = (l0 = 0 \<and> r0 = 0 \<and> l1 = 0 \<and> r1 = 0 \<and> l2 = 0 \<and> r2 = 0)"
  shows "(none \<longrightarrow> c' = c)
       \<and> c' = c\<lparr>rate := rate c'\<rparr>
       \<and> (l0 \<noteq> 0 \<or> r0 \<noteq> 0 \<longrightarrow>
            Limit (rate c') = l0 \<and> Remaining (rate c') = r0 \<and> Source (rate c') = ''bitbucket'')
       \<and> (l0 = 0 \<and> r0 = 0 \<and> (l1 \<noteq> 0 \<or> r1 \<noteq> 0) \<longrightarrow>
            Limit (rate c') = l1 \<and> Remaining (rate c') = r1 \<and> Source (rate c') = ''atlassian'')
       \<and> (l0 = 0 \<and> r0 = 0 \<and> l1 = 0 \<and> r1 = 0 \<and> (l2 \<noteq> 0 \<or> r2 \<noteq> 0) \<longrightarrow>
            Limit (rate c') = l2 \<and> Remaining (rate c') = r2 \<and> Source (rate c') = ''atlassian'')
       \<and> (\<not> none \<and> strconv_ParseInt s = Some epoch \<and> epoch > 0 \<longrightarrow>
            Reset (rate c') = time_Unix epoch)
       \<and> (\<not> none \<and> s \<noteq> [] \<and> strconv_ParseInt s = None \<and> time_Parse_RFC1123 L s = Inr t \<longrightarrow>
            Reset (rate c') = t)
       \<and> (\<not> none \<and> (s = [] \<or> (strconv_ParseInt s = Some epoch \<and> epoch \<le> 0)
                       \<or> (strconv_ParseInt s = None \<and> time_Parse_RFC1123 L s = Inl e)) \<longrightarrow>
            Reset (rate c') = 0)"
proof -
  have empty: "strconv_ParseInt [] = None"
    by (simp add: strconv_ParseInt_def)
  have frame: "c' = c\<lparr>rate := rate c'\<rparr>"
    unfolding c' by (simp add: updateRateLimit_def Let_def split: prod.splits)
  have unchanged: "none \<longrightarrow> c' = c"
    unfolding c' none l0 r0 l1 r1 l2 r2 h
    by (simp add: updateRateLimit_def Let_def)
  have primary: "l0 \<noteq> 0 \<or> r0 \<noteq> 0 \<longrightarrow>
      Limit (rate c') = l0 \<and> Remaining (rate c') = r0 \<and> Source (rate c') = ''bitbucket''"
    unfolding c' l0 r0 h
    by (auto simp: updateRateLimit_def Let_def)
  have fallback1: "l0 = 0 \<and> r0 = 0 \<and> (l1 \<noteq> 0 \<or> r1 \<noteq> 0) \<longrightarrow>
      Limit (rate c') = l1 \<and> Remaining (rate c') = r1 \<and> Source (rate c') = ''atlassian''"
    unfolding c' l0 r0 l1 r1 h
    by (auto simp: updateRateLimit_def Let_def)
  have fallback2: "l0 = 0 \<and> r0 = 0 \<and> l1 = 0 \<and> r1 = 0 \<and> (l2 \<noteq> 0 \<or> r2 \<noteq> 0) \<longrightarrow>
      Limit (rate c') = l2 \<and> Remaining (rate c') = r2 \<and> Source (rate c') = ''atlassian''"
    unfolding c' l0 r0 l1 r1 l2 r2 h
    by (auto simp: updateRateLimit_def Let_def)
  have reset: "\<not> none \<longrightarrow> Reset (rate c') =
      (if s \<noteq> [] then
         (case strconv_ParseInt s of
            Some epoch \<Rightarrow> if epoch > 0 then time_Unix epoch else 0
          | None \<Rightarrow> (case time_Parse_RFC1123 L s of Inr parsed \<Rightarrow> parsed | Inl e \<Rightarrow> 0))
       else 0)"
    unfolding c' none l0 r0 l1 r1 l2 r2 s h
    by (auto simp: updateRateLimit_def Let_def)
  have epoch: "\<not> none \<and> strconv_ParseInt s = Some epoch \<and> epoch > 0 \<longrightarrow>
      Reset (rate c') = time_Unix epoch"
    using reset empty by auto
  have date: "\<not> none \<and> s \<noteq> [] \<and> strconv_ParseInt s = None \<and> time_Parse_RFC1123 L s = Inr t \<longrightarrow>
      Reset (rate c') = t"
    using reset by auto
  have zero: "\<not> none \<and> (s = [] \<or> (strconv_ParseInt s = Some epoch \<and> epoch \<le> 0)
                       \<or> (strconv_ParseInt s = None \<and> time_Parse_RFC1123 L s = Inl e)) \<longrightarrow>
      Reset (rate c') = 0"
    using reset by auto
  from unchanged frame primary fallback1 fallback2 epoch date zero show ?thesis
    by blast
qed

theorem updateRateLimit_rules_witness:
  "updateRateLimit exampleLib exampleClient (plainResponse 200 ''200 OK'' Map.empty okBody)
     = exampleClient
   \<and> rate (updateRateLimit exampleLib exampleClient
        (plainResponse 200 ''200 OK''
           [''X-RateLimit-Limit'' \<mapsto> ''100'', ''X-RateLimit-Remaining'' \<mapsto> ''42''] okBody))
     = \<lparr>Limit = 100, Remaining = 42, Reset = 0, Source = ''bitbucket''\<rparr>
   \<and> rate (updateRateLimit exampleLib exampleClient
        (plainResponse 200 ''200 OK''
           [''X-Attempt-RateLimit-Limit'' \<mapsto> ''60'', ''X-RateLimit-Capacity'' \<mapsto> ''100'',
            ''X-RateLimit-Reset'' \<mapsto> ''1700000000''] okBody))
     = \<lparr>Limit = 60, Remaining = 0, Reset = 63835596800, Source = ''atlassian''\<rparr>
   \<and> rate (updateRateLimit exampleLib exampleClient
        (plainResponse 200 ''200 OK''
           [''X-RateLimit-Capacity'' \<mapsto> ''100'', ''X-RateLimit-Available'' \<mapsto> ''7''] okBody))
     = \<lparr>Limit = 100, Remaining = 7, Reset = 0, Source = ''atlassian''\<rparr>
   \<and> rate (updateRateLimit (exampleLib\<lparr>time_Parse_RFC1123 := (\<lambda>s. Inr 63835596800)\<rparr>) exampleClient
        (plainResponse 200 ''200 OK''
           [''X-RateLimit-Remaining'' \<mapsto> ''42'',
            ''X-RateLimit-Reset'' \<mapsto> ''Tue, 14 Nov 2023 22:13:20 GMT''] okBody))
     = \<lparr>Limit = 0, Remaining = 42, Reset = 63835596800, Source = ''bitbucket''\<rparr>"
proof -
  note rules = updateRateLimit_rules [OF refl refl refl refl refl refl refl refl refl refl]
  note ev = readHeader_def Header_Get_def plainResponse_def atoi_100 atoi_42 atoi_60 atoi_7
            parse_epoch parse_date unix_epoch
  have eq: "r = \<lparr>Limit = l, Remaining = m, Reset = t, Source = src\<rparr>"
    if "Limit r = l \<and> Remaining r = m \<and> Source r = src" and "Reset r = t"
    for r :: RateLimit and l m t src
    using that by (cases r) simp
  have a: "updateRateLimit exampleLib exampleClient
             (plainResponse 200 ''200 OK'' Map.empty okBody) = exampleClient"
    using rules [where resp = "plainResponse 200 ''200 OK'' Map.empty okBody"
                   and L = exampleLib and c = exampleClient]
    by (simp add: ev)
  let ?b = "plainResponse 200 ''200 OK''
              [''X-RateLimit-Limit'' \<mapsto> ''100'', ''X-RateLimit-Remaining'' \<mapsto> ''42''] okBody"
  have b: "rate (updateRateLimit exampleLib exampleClient ?b)
             = \<lparr>Limit = 100, Remaining = 42, Reset = 0, Source = ''bitbucket''\<rparr>"
    using rules [where resp = ?b and L = exampleLib and c = exampleClient]
    by (intro eq) (simp_all add: ev)
  let ?c = "plainResponse 200 ''200 OK''
              [''X-Attempt-RateLimit-Limit'' \<mapsto> ''60'', ''X-RateLimit-Capacity'' \<mapsto> ''100'',
               ''X-RateLimit-Reset'' \<mapsto> ''1700000000''] okBody"
  have c: "rate (updateRateLimit exampleLib exampleClient ?c)
             = \<lparr>Limit = 60, Remaining = 0, Reset = 63835596800, Source = ''atlassian''\<rparr>"
    using rules [where resp = ?c and L = exampleLib and c = exampleClient and epoch = 1700000000]
    by (intro eq) (simp_all add: ev)
  let ?d = "plainResponse 200 ''200 OK''
              [''X-RateLimit-Capacity'' \<mapsto> ''100'', ''X-RateLimit-Available'' \<mapsto> ''7''] okBody"
  have d: "rate (updateRateLimit exampleLib exampleClient ?d)
             = \<lparr>Limit = 100, Remaining = 7, Reset = 0, Source = ''atlassian''\<rparr>"
    using rules [where resp = ?d and L = exampleLib and c = exampleClient]
    by (intro eq) (simp_all add: ev)
  let ?e = "plainResponse 200 ''200 OK''
              [''X-RateLimit-Remaining'' \<mapsto> ''42'',
               ''X-RateLimit-Reset'' \<mapsto> ''Tue, 14 Nov 2023 22:13:20 GMT''] okBody"
  have e: "rate (updateRateLimit (exampleLib\<lparr>time_Parse_RFC1123 := (\<lambda>s. Inr 63835596800)\<rparr>)
                   exampleClient ?e)
             = \<lparr>Limit = 0, Remaining = 42, Reset = 63835596800, Source = ''bitbucket''\<rparr>"
    using rules [where resp = ?e and L = "exampleLib\<lparr>time_Parse_RFC1123 := (\<lambda>s. Inr 63835596800)\<rparr>"
                   and c = exampleClient and t = 63835596800]
    by (intro eq) (simp_all add: ev)
  from a b c d e show ?thesis by blast
qed

section \<open>Properties of the backoff\<close>

lemma wrap64_id: "- (2 ^ 63) \<le> x \<Longrightarrow> x < 2 ^ 63 \<Longrightarrow> wrap64 x = x"
  by (simp add: wrap64_def)

lemma shl1_small: "0 \<le> k \<Longrightarrow> k \<le> 62 \<Longrightarrow> shl1 k = 2 ^ nat k"
proof -
  assume k: "0 \<le> k" "k \<le> 62"
  then have "nat k < 63" by simp
  then have "(2::int) ^ nat k < 2 ^ 63"
    by (intro power_strict_increasing) simp_all
  moreover have "- (2 ^ 63) \<le> (2::int) ^ nat k"
    by (rule order_trans [of _ 0]) simp_all
  ultimately show ?thesis
    using k by (simp add: shl1_def wrap64_id)
qed

text \<open>
  As long as the product fits in 64 bits the delay is the initial backoff doubled
  \<open>n - 1\<close> times and capped, and a \<^verbatim>\<open>Retry-After\<close> header that holds an integer
  replaces it.
\<close>

lemma backoffDelay_in_range:
  assumes "1 \<le> n" and "n \<le> 63" and "0 \<le> InitialBackoff (retry c)"
      and "InitialBackoff (retry c) * 2 ^ nat (n - 1) < 2 ^ 63"
  shows "backoffDelay c n None
           = min (InitialBackoff (retry c) * 2 ^ nat (n - 1)) (MaxBackoff (retry c))"
proof (cases "n > 1")
  case True
  then have s: "shl1 (n - 1) = 2 ^ nat (n - 1)"
    using assms by (intro shl1_small) simp_all
  have "- (2 ^ 63) \<le> InitialBackoff (retry c) * 2 ^ nat (n - 1)"
    by (rule order_trans [of _ 0]) (simp_all add: assms)
  then have "wrap64 (InitialBackoff (retry c) * 2 ^ nat (n - 1))
               = InitialBackoff (retry c) * 2 ^ nat (n - 1)"
    using assms by (intro wrap64_id) simp_all
  with True s show ?thesis
    by (simp add: backoffDelay_def Let_def min_def)
next
  case False
  with assms have "n = 1" by simp
  then show ?thesis
    by (simp add: backoffDelay_def Let_def min_def)
qed

lemma backoffDelay_retry_after:
  assumes "strconv_Atoi (Header_Get (RespHeader r) ''Retry-After'') = Some secs"
  shows "backoffDelay c n (Some r) = wrap64 (secs * 1000000000)"
proof -
  have "Header_Get (RespHeader r) ''Retry-After'' \<noteq> []"
    using assms by (auto simp: strconv_Atoi_def strconv_ParseInt_def)
  with assms show ?thesis
    by (simp add: backoffDelay_def Let_def)
qed

text \<open>
  C3. With 38 attempts allowed, 200ms of initial backoff and a cap of 2s, the
  specification gives the delay before the 37th retry as the cap
  (2000000000ns). The product \<^verbatim>\<open>delay *= time.Duration(1 << 36)\<close> leaves the
  64-bit range and wraps to a negative number: the delay is not capped, and
  \<^verbatim>\<open>backoff\<close> takes the branch for \<^verbatim>\<open>delay <= 0\<close> and retries at once. The
  retry before it still waits for the cap.
\<close>

theorem backoffDelay_overflows:
  "backoffDelay (exampleClient\<lparr>retry := \<lparr>MaxAttempts = 38, InitialBackoff = 200000000,
                                         MaxBackoff = 2000000000\<rparr>\<rparr>) 36 None = 2000000000
   \<and> backoffDelay (exampleClient\<lparr>retry := \<lparr>MaxAttempts = 38, InitialBackoff = 200000000,
                                           MaxBackoff = 2000000000\<rparr>\<rparr>) 37 None
       = - 4702848726509551616
   \<and> backoff (scriptEnv [] None)
        (exampleClient\<lparr>retry := \<lparr>MaxAttempts = 38, InitialBackoff = 200000000,
                                  MaxBackoff = 2000000000\<rparr>\<rparr>) 37 37 None = (True, None)
   \<and> min (200000000 * 2 ^ 36) 2000000000 = (2000000000 :: int)"
  by (simp add: backoff_def backoffDelay_def Let_def shl1_def wrap64_def exampleClient_def
                scriptEnv_def)

section \<open>Properties of the transport core\<close>

lemma cloneRequest_keeps:
  "cloneRequest req = Inr req' \<Longrightarrow>
     Method req' = Method req \<and> URL req' = URL req \<and> Header req' = Header req"
  by (auto simp: cloneRequest_def split: option.splits sum.splits)

lemma cacheKey_cong: "Method r = Method r' \<Longrightarrow> URL r = URL r' \<Longrightarrow> cacheKey L r = cacheKey L r'"
  by (simp add: cacheKey_def)

lemma attachETag_keeps:
  "Method (attachETag L c r) = Method r" "URL (attachETag L c r) = URL r"
  by (simp_all add: attachETag_def Let_def)

lemma cacheKey_sent:
  "cloneRequest req = Inr req' \<Longrightarrow> cacheKey L (attachETag L c req') = cacheKey L req"
  by (intro cacheKey_cong) (simp_all add: attachETag_keeps cloneRequest_keeps)

lemma attachETag_miss: "cache c (cacheKey L r) = None \<Longrightarrow> attachETag L c r = r"
  by (simp add: attachETag_def cachedETag_def)

lemma attachETag_hit:
  "enableCache c \<Longrightarrow> Method r = ''GET'' \<Longrightarrow> cache c (cacheKey L r) = Some entry \<Longrightarrow>
     etag entry \<noteq> [] \<Longrightarrow>
     attachETag L c r = r\<lparr>Header := Header_Set (Header r) ''If-None-Match'' (etag entry)\<rparr>"
  by (simp add: attachETag_def cachedETag_def)

lemma updateRateLimit_same:
  "retry (updateRateLimit L c resp) = retry c"
  "cache (updateRateLimit L c resp) = cache c"
  "enableCache (updateRateLimit L c resp) = enableCache c"
  by (simp_all add: updateRateLimit_def Let_def split: prod.splits)

lemma attempt_not_modified:
  assumes "cloneRequest req = Inr req'"
      and "roundTrip E n (attachETag L c req') = Inr resp"
      and "StatusCode resp = 304" and "enableCache c" and "Method req = ''GET''"
  shows "attempt L E c n req v attempts =
           Return \<lparr>client = updateRateLimit L c resp, calls = Suc n, hdr = Some (RespHeader resp),
                   err = snd (applyCachedResponse L (updateRateLimit L c resp)
                                (attachETag L c req') v),
                   out = fst (applyCachedResponse L (updateRateLimit L c resp)
                                (attachETag L c req') v)\<rparr>"
  using assms cloneRequest_keeps [OF assms(1)]
  by (simp add: attempt_def Let_def updateRateLimit_same attachETag_keeps split: prod.splits)

lemma applyCachedResponse_miss:
  "cache c (cacheKey L r) = None \<Longrightarrow> v \<noteq> TNil \<Longrightarrow>
     applyCachedResponse L c r v
       = (v, Some (Errorf (''cached response missing for '' @ url_String L (URL r))))"
  by (cases v) (simp_all add: applyCachedResponse_def)

text \<open>
  C6, as amended. When a GET with caching enabled is answered with 304 and the
  cache has no entry for the request, at whichever attempt: for every target that
  is not nil, \<^verbatim>\<open>DoWithHeaders\<close> and \<^verbatim>\<open>Do\<close> return the error
  \<^verbatim>\<open>cached response missing for\<close> the URL and leave the caller's target as it
  was; for a nil target they return no error.
\<close>

theorem cache_miss_is_returned:
  fixes L :: "('b, 'j) golib"
  assumes caching: "enableCache c"
      and get: "Method req = ''GET''"
      and clone: "cloneRequest req = Inr req'"
      and miss: "cache c (cacheKey L req) = None"
      and answer: "roundTrip E n req' = Inr resp"
      and status: "StatusCode resp = 304"
  shows "(v \<noteq> TNil \<longrightarrow>
            DoLoop L E c n req v attempts =
              \<lparr>client = updateRateLimit L c resp, calls = Suc n, hdr = Some (RespHeader resp),
               err = Some (Errorf (''cached response missing for '' @ url_String L (URL req))),
               out = v\<rparr>
          \<and> err (DoWithHeaders L E c n (Some req) v)
              = Some (Errorf (''cached response missing for '' @ url_String L (URL req)))
          \<and> err (Do L E c n (Some req) v)
              = Some (Errorf (''cached response missing for '' @ url_String L (URL req))))
       \<and> (v = TNil \<longrightarrow>
            DoLoop L E c n req v attempts =
              \<lparr>client = updateRateLimit L c resp, calls = Suc n, hdr = Some (RespHeader resp),
               err = None, out = TNil\<rparr>
          \<and> err (DoWithHeaders L E c n (Some req) v) = None
          \<and> err (Do L E c n (Some req) v) = None)"
proof (intro conjI impI)
  have key: "cacheKey L req' = cacheKey L req"
    using cloneRequest_keeps [OF clone] by (intro cacheKey_cong) simp_all
  then have sent: "attachETag L c req' = req'"
    using miss by (simp add: attachETag_miss)
  have none: "cache (updateRateLimit L c resp) (cacheKey L req') = None"
    using miss key by (simp add: updateRateLimit_same)
  note step = attempt_not_modified [OF clone _ status caching get, of E n L]
  {
    assume target: "v \<noteq> TNil"
    have "applyCachedResponse L (updateRateLimit L c resp) req' v
            = (v, Some (Errorf (''cached response missing for '' @ url_String L (URL req'))))"
      using none target by (rule applyCachedResponse_miss)
    then have "attempt L E c n req v a =
        Return \<lparr>client = updateRateLimit L c resp, calls = Suc n, hdr = Some (RespHeader resp),
                err = Some (Errorf (''cached response missing for '' @ url_String L (URL req))),
                out = v\<rparr>" for a
      using step [of v a] answer sent cloneRequest_keeps [OF clone]
      by simp
    then have loop: "DoLoop L E c n req v a =
        \<lparr>client = updateRateLimit L c resp, calls = Suc n, hdr = Some (RespHeader resp),
         err = Some (Errorf (''cached response missing for '' @ url_String L (URL req))),
         out = v\<rparr>" for a
      by (subst DoLoop.simps) simp
    show "DoLoop L E c n req v attempts =
        \<lparr>client = updateRateLimit L c resp, calls = Suc n, hdr = Some (RespHeader resp),
         err = Some (Errorf (''cached response missing for '' @ url_String L (URL req))),
         out = v\<rparr>"
      by (rule loop)
    show "err (DoWithHeaders L E c n (Some req) v)
            = Some (Errorf (''cached response missing for '' @ url_String L (URL req)))"
      by (simp add: DoWithHeaders_def loop)
    show "err (Do L E c n (Some req) v)
            = Some (Errorf (''cached response missing for '' @ url_String L (URL req)))"
      by (simp add: Do_def DoWithHeaders_def loop)
  }
  {
    assume nil: "v = TNil"
    have "attempt L E c n req v a =
        Return \<lparr>client = updateRateLimit L c resp, calls = Suc n, hdr = Some (RespHeader resp),
                err = None, out = TNil\<rparr>" for a
      using step [of v a] answer sent nil
      by (simp add: applyCachedResponse_def)
    then have loop: "DoLoop L E c n req v a =
        \<lparr>client = updateRateLimit L c resp, calls = Suc n, hdr = Some (RespHeader resp),
         err = None, out = TNil\<rparr>" for a
      by (subst DoLoop.simps) simp
    show "DoLoop L E c n req v attempts =
        \<lparr>client = updateRateLimit L c resp, calls = Suc n, hdr = Some (RespHeader resp),
         err = None, out = TNil\<rparr>"
      by (rule loop)
    show "err (DoWithHeaders L E c n (Some req) v) = None"
      by (simp add: DoWithHeaders_def loop)
    show "err (Do L E c n (Some req) v) = None"
      by (simp add: Do_def DoWithHeaders_def loop)
  }
qed

lemma getRequest_clone: "cloneRequest getRequest = Inr getRequest"
  by (simp add: cloneRequest_def getRequest_def)

theorem cache_miss_is_returned_witness:
  "err (Do exampleLib (scriptEnv [Inr (plainResponse 304 ''304 Not Modified'' Map.empty [])] None)
          exampleClient 0 (Some getRequest) (TJson []))
     = Some (Errorf ''cached response missing for https://api.example.com/2.0/api'')
   \<and> err (DoWithHeaders exampleLib
            (scriptEnv [Inr (plainResponse 304 ''304 Not Modified'' Map.empty [])] None)
            exampleClient 0 (Some getRequest) (TWriter []))
     = Some (Errorf ''cached response missing for https://api.example.com/2.0/api'')
   \<and> err (Do exampleLib (scriptEnv [Inr (plainResponse 304 ''304 Not Modified'' Map.empty [])] None)
          exampleClient 0 (Some getRequest) (TNil :: string target)) = None"
proof -
  let ?E = "scriptEnv [Inr (plainResponse 304 ''304 Not Modified'' Map.empty [])] None"
  have h: "enableCache exampleClient" "Method getRequest = ''GET''"
          "cache exampleClient (cacheKey exampleLib getRequest) = None"
          "roundTrip ?E 0 getRequest = Inr (plainResponse 304 ''304 Not Modified'' Map.empty [])"
          "StatusCode (plainResponse 304 ''304 Not Modified'' Map.empty []) = 304"
    by (simp_all add: exampleClient_def getRequest_def scriptEnv_def plainResponse_def)
  have u: "url_String exampleLib (URL getRequest) = ''https://api.example.com/2.0/api''"
    by (simp add: exampleLib_def getRequest_def)
  note miss = cache_miss_is_returned [OF h(1,2) getRequest_clone h(3,4,5)]
  show ?thesis
    using miss [where v = "TJson []"] miss [where v = "TWriter []"]
          miss [where v = "TNil :: string target"]
    by (simp add: u)
qed

text \<open>
  C6 as the specification states it fails for a nil target: \<^verbatim>\<open>applyCachedResponse\<close> returns
  nil before it looks the entry up.
\<close>

theorem cache_miss_nil_target_counterexample:
  "cache exampleClient (cacheKey exampleLib getRequest) = None
   \<and> err (DoWithHeaders exampleLib
            (scriptEnv [Inr (plainResponse 304 ''304 Not Modified'' Map.empty [])] None)
            exampleClient 0 (Some getRequest) (TNil :: string target)) = None
   \<and> calls (DoWithHeaders exampleLib
            (scriptEnv [Inr (plainResponse 304 ''304 Not Modified'' Map.empty [])] None)
            exampleClient 0 (Some getRequest) (TNil :: string target)) = 1"
proof -
  let ?E = "scriptEnv [Inr (plainResponse 304 ''304 Not Modified'' Map.empty [])] None"
  have h: "enableCache exampleClient" "Method getRequest = ''GET''"
          "cache exampleClient (cacheKey exampleLib getRequest) = None"
          "StatusCode (plainResponse 304 ''304 Not Modified'' Map.empty []) = 304"
    by (simp_all add: exampleClient_def getRequest_def plainResponse_def)
  have r: "roundTrip ?E 0 r = Inr (plainResponse 304 ''304 Not Modified'' Map.empty [])" for r
    by (simp add: scriptEnv_def)
  have "attempt exampleLib ?E exampleClient 0 getRequest (TNil :: string target) 0 =
      Return \<lparr>client = updateRateLimit exampleLib exampleClient
                         (plainResponse 304 ''304 Not Modified'' Map.empty []),
              calls = Suc 0,
              hdr = Some (RespHeader (plainResponse 304 ''304 Not Modified'' Map.empty [])),
              err = None, out = TNil\<rparr>"
    using attempt_not_modified [OF getRequest_clone r h(4) h(1) h(2),
            where L = exampleLib and v = "TNil :: string target" and attempts = 0]
    by (simp add: applyCachedResponse_def)
  then have "DoLoop exampleLib ?E exampleClient 0 getRequest (TNil :: string target) 0 =
      \<lparr>client = updateRateLimit exampleLib exampleClient
                 (plainResponse 304 ''304 Not Modified'' Map.empty []),
       calls = Suc 0,
       hdr = Some (RespHeader (plainResponse 304 ''304 Not Modified'' Map.empty [])),
       err = None, out = TNil\<rparr>"
    by (subst DoLoop.simps) simp
  then show ?thesis
    using h(3) by (simp add: DoWithHeaders_def)
qed





lemma attempt_success_json:
  assumes "cloneRequest req = Inr req'"
      and "roundTrip E n (attachETag L c req') = Inr resp"
      and "200 \<le> StatusCode resp" and "StatusCode resp < 300"
      and "RespBodyErr resp = None" and "RespBody resp \<noteq> []"
  shows "attempt L E c n req (TJson j) attempts =
           Return \<lparr>client =
                     (if enableCache c \<and> Method req = ''GET''
                         \<and> Header_Get (RespHeader resp) ''ETag'' \<noteq> []
                      then storeCache L (timeNow E (Suc n)) (updateRateLimit L c resp)
                             (attachETag L c req') (RespBody resp)
                             (Header_Get (RespHeader resp) ''ETag'')
                      else updateRateLimit L c resp),
                   calls = Suc n, hdr = Some (RespHeader resp),
                   err = snd (json_Unmarshal L (RespBody resp) j),
                   out = TJson (fst (json_Unmarshal L (RespBody resp) j))\<rparr>"
  using assms cloneRequest_keeps [OF assms(1)]
  by (simp add: attempt_def Let_def shouldRetryStatus_def updateRateLimit_same attachETag_keeps
           split: prod.splits)


lemma attempt_Continue:
  "attempt L E c n req v a = Continue c' \<Longrightarrow>
     a + 1 < MaxAttempts (retry c) \<and> retry c' = retry c \<and> cache c' = cache c
       \<and> enableCache c' = enableCache c"
  by (auto simp: attempt_def Let_def shouldRetry_def updateRateLimit_same
           split: sum.splits if_splits prod.splits option.splits bool.splits target.splits)






section \<open>Properties of the response cache\<close>

lemma DoLoop_Return: "attempt L E c n req v a = Return r \<Longrightarrow> DoLoop L E c n req v a = r"
  by (subst DoLoop.simps) simp

lemma DoLoop_Continue:
  "attempt L E c n req v a = Continue c' \<Longrightarrow>
     DoLoop L E c n req v a = DoLoop L E c' (Suc n) req v (a + 1)"
  by (subst DoLoop.simps) simp

lemma attempt_success_writer:
  assumes "cloneRequest req = Inr req'"
      and "roundTrip E n (attachETag L c req') = Inr resp"
      and "200 \<le> StatusCode resp" and "StatusCode resp < 300"
  shows "attempt L E c n req (TWriter w) attempts =
           Return \<lparr>client = updateRateLimit L c resp, calls = Suc n, hdr = Some (RespHeader resp),
                   err = RespBodyErr resp, out = TWriter (w @ RespBody resp)\<rparr>"
  using assms
  by (simp add: attempt_def Let_def shouldRetryStatus_def)

lemma applyCachedResponse_hit:
  assumes "cache c (cacheKey L r) = Some entry" and "body entry \<noteq> []"
  shows "applyCachedResponse L c r (TJson j)
           = (TJson (fst (json_Unmarshal L (body entry) j)), snd (json_Unmarshal L (body entry) j))"
    and "applyCachedResponse L c r (TWriter w) = (TWriter (w @ body entry), None)"
  using assms by (simp_all add: applyCachedResponse_def split: prod.splits)

lemma attempt_Return_no_store:
  assumes "attempt L E c n req v a = Return r" and "\<forall>j. v \<noteq> TJson j"
  shows "cache (client r) = cache c"
proof (cases v)
  case TNil
  with assms(1) show ?thesis
    by (auto simp: attempt_def Let_def storeCache_def updateRateLimit_same applyCachedResponse_def
             split: sum.splits if_splits prod.splits option.splits bool.splits)
next
  case (TWriter w)
  with assms(1) show ?thesis
    by (auto simp: attempt_def Let_def updateRateLimit_same applyCachedResponse_def
             split: sum.splits if_splits prod.splits option.splits bool.splits)
next
  case (TJson j)
  with assms(2) show ?thesis by simp
qed

lemma DoLoop_no_store:
  "\<forall>j. v \<noteq> TJson j \<Longrightarrow> cache (client (DoLoop L E c n req v a)) = cache c"
proof (induction L E c n req v a rule: DoLoop.induct)
  case (1 L E c n req v attempts)
  show ?case
  proof (cases "attempt L E c n req v attempts")
    case (Return r)
    then show ?thesis
      using attempt_Return_no_store [OF Return "1.prems"] by (simp add: DoLoop_Return)
  next
    case (Continue c')
    from attempt_Continue [OF Continue] have "cache c' = cache c"
      by simp
    with "1.IH" [OF Continue "1.prems"] show ?thesis
      by (simp add: DoLoop_Continue [OF Continue])
  qed
qed

lemma round_trip_after_json:
  fixes L :: "('b, 'j) golib"
  assumes caching: "enableCache c"
      and get: "Method req = ''GET''"
      and clone: "cloneRequest req = Inr req'"
      and first: "roundTrip E n (attachETag L c req') = Inr r1"
      and success: "200 \<le> StatusCode r1 \<and> StatusCode r1 < 300"
      and tag: "Header_Get (RespHeader r1) ''ETag'' = E1 \<and> E1 \<noteq> []"
      and body1: "RespBody r1 = B1 \<and> B1 \<noteq> [] \<and> RespBodyErr r1 = None"
      and res1: "res1 = DoWithHeaders L E c n (Some req) (TJson j1)"
      and second: "roundTrip E (Suc n)
                     (req'\<lparr>Header := Header_Set (Header req') ''If-None-Match'' E1\<rparr>) = Inr r2"
      and unchanged: "StatusCode r2 = 304"
      and res2: "res2 = DoWithHeaders L E (client res1) (calls res1) (Some req) v2"
  shows "calls res1 = Suc n
       \<and> out res1 = TJson (fst (json_Unmarshal L B1 j1))
       \<and> err res1 = snd (json_Unmarshal L B1 j1)
       \<and> attachETag L (client res1) req'
            = req'\<lparr>Header := Header_Set (Header req') ''If-None-Match'' E1\<rparr>
       \<and> calls res2 = n + 2
       \<and> (v2 = TJson j2 \<longrightarrow> out res2 = TJson (fst (json_Unmarshal L B1 j2))
                              \<and> err res2 = snd (json_Unmarshal L B1 j2))
       \<and> (v2 = TWriter w \<longrightarrow> out res2 = TWriter (w @ B1) \<and> err res2 = None)"
proof -
  let ?c1 = "storeCache L (timeNow E (Suc n)) (updateRateLimit L c r1) (attachETag L c req') B1 E1"
  let ?sent = "req'\<lparr>Header := Header_Set (Header req') ''If-None-Match'' E1\<rparr>"
  let ?entry = "\<lparr>etag = E1, body = B1, storedAt = timeNow E (Suc n)\<rparr>"
  have same: "Method req' = Method req" "URL req' = URL req"
    using cloneRequest_keeps [OF clone] by simp_all
  have key: "cacheKey L (attachETag L c req') = cacheKey L req'"
    by (intro cacheKey_cong) (simp_all add: attachETag_keeps)
  have r1: "res1 = \<lparr>client = ?c1, calls = Suc n, hdr = Some (RespHeader r1),
                    err = snd (json_Unmarshal L B1 j1),
                    out = TJson (fst (json_Unmarshal L B1 j1))\<rparr>"
    unfolding res1 DoWithHeaders_def
    using attempt_success_json [OF clone first, of j1 0] success tag body1 caching get
    by (simp add: DoLoop_Return)
  have entry: "cache ?c1 (cacheKey L req') = Some ?entry"
    using tag body1 key by (simp add: storeCache_def)
  have on: "enableCache ?c1"
    using caching by (simp add: storeCache_def updateRateLimit_same)
  have sent: "attachETag L ?c1 req' = ?sent"
    using attachETag_hit [OF on _ entry] same get tag by simp
  let ?c2 = "updateRateLimit L ?c1 r2"
  have "cache ?c2 (cacheKey L ?sent) = Some ?entry"
    using entry by (simp add: updateRateLimit_same cacheKey_def)
  note hit = applyCachedResponse_hit [OF this]
  have r2: "res2 = \<lparr>client = ?c2, calls = Suc (Suc n), hdr = Some (RespHeader r2),
                    err = snd (applyCachedResponse L ?c2 ?sent v2),
                    out = fst (applyCachedResponse L ?c2 ?sent v2)\<rparr>"
    unfolding res2 DoWithHeaders_def
    using attempt_not_modified [OF clone _ unchanged on get, of E "Suc n" L v2 0] second sent
    by (simp add: r1 DoLoop_Return)
  have json: "v2 = TJson j2 \<longrightarrow> out res2 = TJson (fst (json_Unmarshal L B1 j2))
                              \<and> err res2 = snd (json_Unmarshal L B1 j2)"
    using hit(1) [of j2] body1 by (simp add: r2)
  have stream: "v2 = TWriter w \<longrightarrow> out res2 = TWriter (w @ B1) \<and> err res2 = None"
    using hit(2) [of w] body1 by (simp add: r2)
  from r1 r2 sent json stream show ?thesis
    by simp
qed

text \<open>
  C5, as amended. With caching enabled, let a GET whose target is a JSON value
  be answered with a 2xx response that carries the ETag \<open>E1\<close> and the non-empty
  body \<open>B1\<close>: one network call is made and the target holds \<open>B1\<close> decoded. The
  next call for the same request then sends \<^verbatim>\<open>If-None-Match: E1\<close>; when it is
  answered with 304, the caller observes \<open>B1\<close> again, decoded into a JSON target
  or appended to a stream target, whatever the body of the 304, and two network
  calls were made in all. A call whose target is a stream or nil, whatever the
  request and the answers, leaves the cache exactly as it was.
\<close>

theorem etag_round_trip:
  fixes L :: "('b, 'j) golib"
  shows "(enableCache c \<and> Method req = ''GET'' \<and> cloneRequest req = Inr req'
          \<and> roundTrip E n (attachETag L c req') = Inr r1
          \<and> 200 \<le> StatusCode r1 \<and> StatusCode r1 < 300
          \<and> Header_Get (RespHeader r1) ''ETag'' = E1 \<and> E1 \<noteq> []
          \<and> RespBody r1 = B1 \<and> B1 \<noteq> [] \<and> RespBodyErr r1 = None
          \<and> res1 = DoWithHeaders L E c n (Some req) (TJson j1)
          \<and> roundTrip E (Suc n)
               (req'\<lparr>Header := Header_Set (Header req') ''If-None-Match'' E1\<rparr>) = Inr r2
          \<and> StatusCode r2 = 304
          \<and> res2 = DoWithHeaders L E (client res1) (calls res1) (Some req) v2
        \<longrightarrow> calls res1 = Suc n
          \<and> out res1 = TJson (fst (json_Unmarshal L B1 j1))
          \<and> err res1 = snd (json_Unmarshal L B1 j1)
          \<and> attachETag L (client res1) req'
               = req'\<lparr>Header := Header_Set (Header req') ''If-None-Match'' E1\<rparr>
          \<and> calls res2 = n + 2
          \<and> (v2 = TJson j2 \<longrightarrow> out res2 = TJson (fst (json_Unmarshal L B1 j2))
                                 \<and> err res2 = snd (json_Unmarshal L B1 j2))
          \<and> (v2 = TWriter w \<longrightarrow> out res2 = TWriter (w @ B1) \<and> err res2 = None))
       \<and> (v1 = TNil \<or> v1 = TWriter w1 \<longrightarrow>
            cache (client (DoWithHeaders L E c n reqo v1)) = cache c
          \<and> cache (client (Do L E c n reqo v1)) = cache c)"
proof (intro conjI impI)
  assume a: "enableCache c \<and> Method req = ''GET'' \<and> cloneRequest req = Inr req'
      \<and> roundTrip E n (attachETag L c req') = Inr r1
      \<and> 200 \<le> StatusCode r1 \<and> StatusCode r1 < 300
      \<and> Header_Get (RespHeader r1) ''ETag'' = E1 \<and> E1 \<noteq> []
      \<and> RespBody r1 = B1 \<and> B1 \<noteq> [] \<and> RespBodyErr r1 = None
      \<and> res1 = DoWithHeaders L E c n (Some req) (TJson j1)
      \<and> roundTrip E (Suc n)
           (req'\<lparr>Header := Header_Set (Header req') ''If-None-Match'' E1\<rparr>) = Inr r2
      \<and> StatusCode r2 = 304
      \<and> res2 = DoWithHeaders L E (client res1) (calls res1) (Some req) v2"
  then have h: "enableCache c" "Method req = ''GET''" "cloneRequest req = Inr req'"
      "roundTrip E n (attachETag L c req') = Inr r1"
      "200 \<le> StatusCode r1 \<and> StatusCode r1 < 300"
      "Header_Get (RespHeader r1) ''ETag'' = E1 \<and> E1 \<noteq> []"
      "RespBody r1 = B1 \<and> B1 \<noteq> [] \<and> RespBodyErr r1 = None"
      "res1 = DoWithHeaders L E c n (Some req) (TJson j1)"
      "roundTrip E (Suc n)
         (req'\<lparr>Header := Header_Set (Header req') ''If-None-Match'' E1\<rparr>) = Inr r2"
      "StatusCode r2 = 304"
      "res2 = DoWithHeaders L E (client res1) (calls res1) (Some req) v2"
    by simp_all
  note rt = round_trip_after_json [OF h, of j2 w]
  from rt show "calls res1 = Suc n" by simp
  from rt show "out res1 = TJson (fst (json_Unmarshal L B1 j1))" by simp
  from rt show "err res1 = snd (json_Unmarshal L B1 j1)" by simp
  from rt show "attachETag L (client res1) req'
      = req'\<lparr>Header := Header_Set (Header req') ''If-None-Match'' E1\<rparr>" by simp
  from rt show "calls res2 = n + 2" by simp
  {
    assume "v2 = TJson j2"
    with rt show "out res2 = TJson (fst (json_Unmarshal L B1 j2))"
             and "err res2 = snd (json_Unmarshal L B1 j2)"
      by simp_all
  }
  {
    assume "v2 = TWriter w"
    with rt show "out res2 = TWriter (w @ B1)" and "err res2 = None"
      by simp_all
  }
next
  assume "v1 = TNil \<or> v1 = TWriter w1"
  then have v: "\<forall>j. v1 \<noteq> TJson j"
    by auto
  show keep: "cache (client (DoWithHeaders L E c n reqo v1)) = cache c"
  proof (cases reqo)
    case None
    then show ?thesis by (simp add: DoWithHeaders_def)
  next
    case (Some req)
    then show ?thesis
      using DoLoop_no_store [OF v] by (simp add: DoWithHeaders_def)
  qed
  show "cache (client (Do L E c n reqo v1)) = cache c"
    using keep by (simp add: Do_def)
qed

theorem etag_round_trip_witness:
  "calls (firstCall (TJson [])) = 1
   \<and> out (firstCall (TJson [])) = TJson okBody
   \<and> Header_Get (Header (attachETag exampleLib (client (firstCall (TJson []))) getRequest))
         ''If-None-Match'' = ''etag-123''
   \<and> calls (secondCall (TJson []) (TJson [])) = 2
   \<and> out (secondCall (TJson []) (TJson [])) = TJson okBody
   \<and> err (secondCall (TJson []) (TJson [])) = None
   \<and> out (secondCall (TJson []) (TWriter [])) = TWriter okBody
   \<and> cache (client (firstCall (TWriter []))) = Map.empty
   \<and> cache (client (firstCall TNil)) = Map.empty"
proof -
  let ?r1 = "plainResponse 200 ''200 OK'' [''ETag'' \<mapsto> ''etag-123''] okBody"
  let ?r2 = "plainResponse 304 ''304 Not Modified'' [''ETag'' \<mapsto> ''etag-123''] []"
  let ?sent = "getRequest\<lparr>Header := Header_Set (Header getRequest) ''If-None-Match'' ''etag-123''\<rparr>"
  have h: "enableCache exampleClient" "Method getRequest = ''GET''"
          "roundTrip etagEnv 0 (attachETag exampleLib exampleClient getRequest) = Inr ?r1"
          "200 \<le> StatusCode ?r1" "StatusCode ?r1 < 300"
          "Header_Get (RespHeader ?r1) ''ETag'' = ''etag-123''" "''etag-123'' \<noteq> []"
          "RespBody ?r1 = okBody" "okBody \<noteq> []" "RespBodyErr ?r1 = None"
          "roundTrip etagEnv (Suc 0) ?sent = Inr ?r2"
          "StatusCode ?r2 = 304"
    by (simp_all add: exampleClient_def getRequest_def etagEnv_def scriptEnv_def plainResponse_def
                      Header_Get_def okBody_def)
  have u: "json_Unmarshal exampleLib okBody j = (okBody, None)" for j
    by (simp add: exampleLib_def)
  have empty: "cache exampleClient = Map.empty"
    by (simp add: exampleClient_def)
  note pre = conjI [OF h(1) conjI [OF h(2) conjI [OF getRequest_clone conjI [OF h(3)
                 conjI [OF h(4) conjI [OF h(5) conjI [OF h(6) conjI [OF h(7) conjI [OF h(8)
                 conjI [OF h(9) conjI [OF h(10) conjI [OF firstCall_def conjI [OF h(11)
                 conjI [OF h(12) secondCall_def]]]]]]]]]]]]]]
  have json: "calls (firstCall (TJson [])) = 1 \<and> out (firstCall (TJson [])) = TJson okBody
      \<and> Header_Get (Header (attachETag exampleLib (client (firstCall (TJson []))) getRequest))
            ''If-None-Match'' = ''etag-123''
      \<and> calls (secondCall (TJson []) (TJson [])) = 2
      \<and> out (secondCall (TJson []) (TJson [])) = TJson okBody
      \<and> err (secondCall (TJson []) (TJson [])) = None"
    using etag_round_trip
            [where L = exampleLib and E = etagEnv and c = exampleClient and n = 0
               and req = getRequest and req' = getRequest and ?r1.0 = "?r1" and ?r2.0 = "?r2"
               and ?E1.0 = "''etag-123''" and ?B1.0 = okBody and ?j1.0 = "[]"
               and ?res1.0 = "firstCall (TJson [])" and ?v2.0 = "TJson []"
               and ?res2.0 = "secondCall (TJson []) (TJson [])" and ?j2.0 = "[]",
             THEN conjunct1, THEN mp, OF pre]
    by (simp add: u Header_Get_def Header_Set_def)
  have stream: "out (secondCall (TJson []) (TWriter [])) = TWriter okBody"
    using etag_round_trip
            [where L = exampleLib and E = etagEnv and c = exampleClient and n = 0
               and req = getRequest and req' = getRequest and ?r1.0 = "?r1" and ?r2.0 = "?r2"
               and ?E1.0 = "''etag-123''" and ?B1.0 = okBody and ?j1.0 = "[]"
               and ?res1.0 = "firstCall (TJson [])" and ?v2.0 = "TWriter []"
               and ?res2.0 = "secondCall (TJson []) (TWriter [])" and w = "[]",
             THEN conjunct1, THEN mp, OF pre]
    by simp
  have none: "cache (client (firstCall (TWriter []))) = Map.empty
      \<and> cache (client (firstCall TNil)) = Map.empty"
    using etag_round_trip
            [where L = exampleLib and E = etagEnv and c = exampleClient and n = 0
               and reqo = "Some getRequest" and ?v1.0 = "TWriter []" and ?w1.0 = "[]",
             THEN conjunct2]
          etag_round_trip
            [where L = exampleLib and E = etagEnv and c = exampleClient and n = 0
               and reqo = "Some getRequest" and ?v1.0 = "TNil :: string target",
             THEN conjunct2]
    by (simp add: firstCall_def empty)
  from json stream none show ?thesis by blast
qed

text \<open>
  C5 as the specification states it fails when the first call streams the body: nothing is
  stored, the second call carries no \<^verbatim>\<open>If-None-Match\<close>, and a 304 then finds no
  entry, so the caller gets an error and no body.
\<close>

theorem etag_round_trip_stream_counterexample:
  "out (firstCall (TWriter [])) = TWriter okBody
   \<and> cache (client (firstCall (TWriter []))) (cacheKey exampleLib getRequest) = None
   \<and> attachETag exampleLib (client (firstCall (TWriter []))) getRequest = getRequest
   \<and> calls (secondCall (TWriter []) (TWriter [])) = 2
   \<and> err (secondCall (TWriter []) (TWriter []))
       = Some (Errorf ''cached response missing for https://api.example.com/2.0/api'')
   \<and> out (secondCall (TWriter []) (TWriter [])) = TWriter []"
proof -
  let ?r1 = "plainResponse 200 ''200 OK'' [''ETag'' \<mapsto> ''etag-123''] okBody"
  let ?r2 = "plainResponse 304 ''304 Not Modified'' [''ETag'' \<mapsto> ''etag-123''] []"
  let ?c1 = "updateRateLimit exampleLib exampleClient ?r1"
  have net: "roundTrip etagEnv 0 r = Inr ?r1" "roundTrip etagEnv (Suc 0) r = Inr ?r2" for r
    by (simp_all add: etagEnv_def scriptEnv_def)
  have st: "200 \<le> StatusCode ?r1" "StatusCode ?r1 < 300" "StatusCode ?r2 = 304"
           "RespBody ?r1 = okBody" "RespBodyErr ?r1 = None"
    by (simp_all add: plainResponse_def)
  have first: "firstCall (TWriter []) =
      \<lparr>client = ?c1, calls = Suc 0, hdr = Some (RespHeader ?r1), err = None,
       out = TWriter okBody\<rparr>"
    unfolding firstCall_def DoWithHeaders_def
    using attempt_success_writer [OF getRequest_clone net(1) st(1,2),
            where L = exampleLib and c = exampleClient and w = "[]" and attempts = 0]
    by (simp add: DoLoop_Return st)
  have empty: "cache ?c1 (cacheKey exampleLib getRequest) = None"
    by (simp add: updateRateLimit_same exampleClient_def)
  have on: "enableCache ?c1" and get: "Method getRequest = ''GET''"
    by (simp_all add: updateRateLimit_same exampleClient_def getRequest_def)
  have sent: "attachETag exampleLib ?c1 getRequest = getRequest"
    using empty by (rule attachETag_miss)
  have "cache (updateRateLimit exampleLib ?c1 ?r2) (cacheKey exampleLib getRequest) = None"
    using empty by (simp add: updateRateLimit_same)
  then have miss: "applyCachedResponse exampleLib (updateRateLimit exampleLib ?c1 ?r2)
                     getRequest (TWriter [])
      = (TWriter [], Some (Errorf (''cached response missing for ''
                                    @ url_String exampleLib (URL getRequest))))"
    by (intro applyCachedResponse_miss) simp_all
  have u: "url_String exampleLib (URL getRequest) = ''https://api.example.com/2.0/api''"
    by (simp add: exampleLib_def getRequest_def)
  have second: "secondCall (TWriter []) (TWriter []) =
      \<lparr>client = updateRateLimit exampleLib ?c1 ?r2, calls = Suc (Suc 0),
       hdr = Some (RespHeader ?r2),
       err = Some (Errorf ''cached response missing for https://api.example.com/2.0/api''),
       out = TWriter []\<rparr>"
    unfolding secondCall_def DoWithHeaders_def
    using attempt_not_modified [OF getRequest_clone net(2) st(3) on get,
            where L = exampleLib and v = "TWriter [] :: string target" and attempts = 0]
    by (simp add: first DoLoop_Return sent miss u)
  from first second empty sent show ?thesis
    by simp
qed

lemma storeCache_cache:
  "cache (storeCache L t c r b tag) =
     (if tag = [] \<or> b = [] then cache c
      else (cache c)(cacheKey L r \<mapsto> \<lparr>etag = tag, body = b, storedAt = t\<rparr>))"
  by (simp add: storeCache_def)

lemma attempt_Return_cache:
  assumes "attempt L E c n req v a = Return r"
  shows "cache (client r) = cache c \<or> cacheWrite L E req c (client r)"
proof (cases "cloneRequest req")
  case (Inl e)
  with assms show ?thesis
    by (auto simp: attempt_def)
next
  case (Inr req')
  note same = cloneRequest_keeps [OF Inr]
  show ?thesis
  proof (cases "roundTrip E n (attachETag L c req')")
    case (Inl ne)
    with assms Inr show ?thesis
      by (auto simp: attempt_def Let_def split: if_splits prod.splits option.splits bool.splits)
  next
    case resp: (Inr resp)
    let ?tag = "Header_Get (RespHeader resp) ''ETag''"
    show ?thesis
    proof (cases "200 \<le> StatusCode resp \<and> StatusCode resp < 300 \<and> (\<exists>j. v = TJson j)
                  \<and> RespBodyErr resp = None \<and> enableCache c \<and> Method req = ''GET''
                  \<and> ?tag \<noteq> [] \<and> RespBody resp \<noteq> []")
      case True
      then obtain j where j: "v = TJson j" by blast
      have "client r = storeCache L (timeNow E (Suc n)) (updateRateLimit L c resp)
                         (attachETag L c req') (RespBody resp) ?tag"
        using assms attempt_success_json [OF Inr resp, of j a] True j by auto
      then have "cache (client r) = (cache c)(cacheKey L req \<mapsto>
          \<lparr>etag = ?tag, body = RespBody resp, storedAt = timeNow E (Suc n)\<rparr>)"
        using True by (simp add: storeCache_cache updateRateLimit_same cacheKey_sent [OF Inr])
      moreover have "Method (attachETag L c req') = ''GET''" "URL (attachETag L c req') = URL req"
        using True same by (simp_all add: attachETag_keeps)
      ultimately have "cacheWrite L E req c (client r)"
        unfolding cacheWrite_def using True resp by blast
      then show ?thesis ..
    next
      case False
      with assms Inr resp same have "cache (client r) = cache c"
        by (auto simp: attempt_def Let_def storeCache_cache updateRateLimit_same attachETag_keeps
                       applyCachedResponse_def shouldRetryStatus_def
                 split: if_splits prod.splits option.splits bool.splits target.splits)
      then show ?thesis ..
    qed
  qed
qed

lemma cacheWrite_cong:
  "cache c' = cache c \<Longrightarrow> enableCache c' = enableCache c \<Longrightarrow>
     cacheWrite L E req c' d \<Longrightarrow> cacheWrite L E req c d"
  by (simp add: cacheWrite_def)

lemma DoLoop_cache:
  "cache (client (DoLoop L E c n req v a)) = cache c
     \<or> cacheWrite L E req c (client (DoLoop L E c n req v a))"
proof (induction L E c n req v a rule: DoLoop.induct)
  case (1 L E c n req v attempts)
  show ?case
  proof (cases "attempt L E c n req v attempts")
    case (Return r)
    then show ?thesis
      using attempt_Return_cache [OF Return] by (simp add: DoLoop_Return)
  next
    case (Continue c')
    from attempt_Continue [OF Continue]
    have same: "cache c' = cache c" "enableCache c' = enableCache c"
      by simp_all
    from "1.IH" [OF Continue] show ?thesis
      unfolding DoLoop_Continue [OF Continue]
      using same cacheWrite_cong [OF same] by auto
  qed
qed

lemma cacheWrite_inv:
  assumes "cacheWrite L E req c d" and "cacheInv L c"
  shows "cacheInv L d"
  unfolding cacheInv_def
proof (intro allI impI)
  fix k entry
  assume e: "cache d k = Some entry"
  have get: "Method req = ''GET''"
    using assms(1) by (simp add: cacheWrite_def)
  have "\<exists>new. etag new \<noteq> [] \<and> body new \<noteq> [] \<and> cache d = (cache c)(cacheKey L req \<mapsto> new)"
    using assms(1) unfolding cacheWrite_def
    apply (elim conjE exE)
    subgoal for m sent resp
      by (rule exI [of _ "\<lparr>etag = Header_Get (RespHeader resp) ''ETag'', body = RespBody resp,
                           storedAt = timeNow E (Suc m)\<rparr>"]) simp
    done
  then obtain new where new: "etag new \<noteq> []" "body new \<noteq> []"
      "cache d = (cache c)(cacheKey L req \<mapsto> new)"
    by blast
  show "etag entry \<noteq> [] \<and> body entry \<noteq> [] \<and> (\<exists>u. k = ''GET '' @ url_String L u)"
  proof (cases "k = cacheKey L req")
    case True
    with e new have "entry = new"
      by simp
    moreover have "k = ''GET '' @ url_String L (URL req)"
      using True get by (simp add: cacheKey_def)
    ultimately show ?thesis
      using new by blast
  next
    case False
    with e new(3) have "cache c k = Some entry"
      by simp
    with assms(2) show ?thesis
      unfolding cacheInv_def by blast
  qed
qed

lemma cacheWrite_keeps:
  "cacheWrite L E req c d \<Longrightarrow> cache c k \<noteq> None \<Longrightarrow> cache d k \<noteq> None"
  by (auto simp: cacheWrite_def)

text \<open>
  C4. Whatever the request, the target, the network and the context, a call of
  \<^verbatim>\<open>DoWithHeaders\<close> (or \<^verbatim>\<open>Do\<close>) keeps the invariant of the cache: every entry
  has a non-empty ETag and a non-empty body under a key made of \<^verbatim>\<open>GET\<close> and a
  URL. No key is lost. The cache is either exactly as before, or caching is
  enabled and the one entry of the request, a GET, now holds the ETag and the body
  of a 2xx response to it, both non-empty. The rate-limit update does not touch
  the cache, and the empty cache of a new client has the invariant.
\<close>

theorem cache_invariant:
  fixes L :: "('b, 'j) golib"
  shows "(cacheInv L c \<longrightarrow> cacheInv L (client (DoWithHeaders L E c n reqo v)))
       \<and> (\<forall>k. cache c k \<noteq> None \<longrightarrow> cache (client (DoWithHeaders L E c n reqo v)) k \<noteq> None)
       \<and> (cache (client (DoWithHeaders L E c n reqo v)) = cache c
           \<or> (\<exists>req. reqo = Some req
                  \<and> cacheWrite L E req c (client (DoWithHeaders L E c n reqo v))))
       \<and> client (Do L E c n reqo v) = client (DoWithHeaders L E c n reqo v)
       \<and> cache (updateRateLimit L c resp) = cache c
       \<and> (cache c = Map.empty \<longrightarrow> cacheInv L c)"
proof -
  let ?d = "client (DoWithHeaders L E c n reqo v)"
  have step: "cache ?d = cache c \<or> (\<exists>req. reqo = Some req \<and> cacheWrite L E req c ?d)"
  proof (cases reqo)
    case None
    then show ?thesis by (simp add: DoWithHeaders_def)
  next
    case (Some req)
    then show ?thesis
      using DoLoop_cache [of L E c n req v 0] by (simp add: DoWithHeaders_def)
  qed
  have inv: "cacheInv L c \<longrightarrow> cacheInv L ?d"
  proof
    assume i: "cacheInv L c"
    from step show "cacheInv L ?d"
    proof
      assume "cache ?d = cache c"
      with i show ?thesis by (simp add: cacheInv_def)
    next
      assume "\<exists>req. reqo = Some req \<and> cacheWrite L E req c ?d"
      then show ?thesis
        using cacheWrite_inv i by blast
    qed
  qed
  have kept: "\<forall>k. cache c k \<noteq> None \<longrightarrow> cache ?d k \<noteq> None"
    using step cacheWrite_keeps by fastforce
  have "client (Do L E c n reqo v) = ?d"
    by (simp add: Do_def)
  moreover have "cache (updateRateLimit L c resp) = cache c"
    by (simp add: updateRateLimit_same)
  moreover have "cache c = Map.empty \<longrightarrow> cacheInv L c"
    by (simp add: cacheInv_def)
  ultimately show ?thesis
    using inv kept step by blast
qed

lemma firstCall_json_entry:
  "cache (client (firstCall (TJson []))) ''GET https://api.example.com/2.0/api''
     = Some \<lparr>etag = ''etag-123'', body = okBody, storedAt = 0\<rparr>"
proof -
  let ?r1 = "plainResponse 200 ''200 OK'' [''ETag'' \<mapsto> ''etag-123''] okBody"
  have h: "roundTrip etagEnv 0 (attachETag exampleLib exampleClient getRequest) = Inr ?r1"
          "200 \<le> StatusCode ?r1" "StatusCode ?r1 < 300" "RespBodyErr ?r1 = None"
          "RespBody ?r1 \<noteq> []"
    by (simp_all add: etagEnv_def scriptEnv_def plainResponse_def okBody_def)
  have k: "cacheKey exampleLib (attachETag exampleLib exampleClient getRequest)
             = ''GET https://api.example.com/2.0/api''"
    by (simp add: cacheKey_def attachETag_keeps) (simp add: getRequest_def exampleLib_def)
  show ?thesis
    unfolding firstCall_def DoWithHeaders_def
    using attempt_success_json [OF getRequest_clone h, of "[]" 0]
    by (simp add: DoLoop_Return storeCache_cache k)
       (simp add: exampleClient_def getRequest_def plainResponse_def Header_Get_def etagEnv_def
                  scriptEnv_def okBody_def)
qed

theorem cache_invariant_witness:
  "cacheInv exampleLib exampleClient
   \<and> cacheInv exampleLib (client (firstCall (TJson [])))
   \<and> cache (client (firstCall (TJson []))) ''GET https://api.example.com/2.0/api''
       = Some \<lparr>etag = ''etag-123'', body = okBody, storedAt = 0\<rparr>
   \<and> cacheInv exampleLib (client (secondCall (TJson []) (TJson [])))
   \<and> cache (client (secondCall (TJson []) (TJson []))) ''GET https://api.example.com/2.0/api''
       \<noteq> None"
proof -
  have empty: "cache exampleClient = Map.empty"
    by (simp add: exampleClient_def)
  note one = cache_invariant
    [where L = exampleLib and E = etagEnv and c = exampleClient and n = 0
       and reqo = "Some getRequest" and v = "TJson []"]
  note two = cache_invariant
    [where L = exampleLib and E = etagEnv and c = "client (firstCall (TJson []))"
       and n = "calls (firstCall (TJson []))" and reqo = "Some getRequest" and v = "TJson []"]
  have a: "cacheInv exampleLib exampleClient"
    using one empty by blast
  have b: "cacheInv exampleLib (client (firstCall (TJson [])))"
    using one a unfolding firstCall_def by blast
  have c: "cacheInv exampleLib (client (secondCall (TJson []) (TJson [])))"
    using two b unfolding secondCall_def by blast
  have d: "cache (client (secondCall (TJson []) (TJson []))) ''GET https://api.example.com/2.0/api''
             \<noteq> None"
    using two firstCall_json_entry unfolding secondCall_def by force
  from a b c d firstCall_json_entry show ?thesis
    by blast
qed

end
